theory Spec2Isabelle
  imports Main
begin

section \<open>JavaScript values\<close>

text \<open>
  The two source files are JavaScript. The values that flow through the functions
  verified here are modelled by one datatype. Numbers are integers (the code only
  compares, counts and prints them); an object is the list of its own enumerable
  properties in enumeration order; an array is the object whose keys are the decimal
  indices \<open>0, 1, ...\<close>.
\<close>

datatype js_value =
    JUndefined
  | JNull
  | JBool bool
  | JNum int
  | JStr string
  | JObj "(string \<times> js_value) list"

datatype js_exn = TypeError | Error string

text \<open>JavaScript truthiness: what \<open>if (v)\<close>, \<open>!v\<close>, \<open>a || b\<close> and \<open>a && b\<close> test.\<close>

fun truthy :: "js_value \<Rightarrow> bool" where
  "truthy JUndefined = False"
| "truthy JNull = False"
| "truthy (JBool b) = b"
| "truthy (JNum n) = (n \<noteq> 0)"
| "truthy (JStr s) = (s \<noteq> [])"
| "truthy (JObj ps) = True"

definition js_or :: "js_value \<Rightarrow> js_value \<Rightarrow> js_value" where
  "js_or a b = (if truthy a then a else b)"

definition js_and :: "js_value \<Rightarrow> js_value \<Rightarrow> js_value" where
  "js_and a b = (if truthy a then b else a)"

text \<open>
  \<open>v[k]\<close> for a string key. On \<open>undefined\<close> and \<open>null\<close> the source throws a
  TypeError; every use below is either guarded by the source itself or writes that
  branch out, so the total function returns \<open>undefined\<close> there. What a primitive or an
  object inherits from its prototype, and the indices and length of a string, are not
  modelled.
\<close>

fun js_prop :: "js_value \<Rightarrow> string \<Rightarrow> js_value" where
  "js_prop (JObj ps) k = (case map_of ps k of Some v \<Rightarrow> v | None \<Rightarrow> JUndefined)"
| "js_prop v k = JUndefined"

text \<open>
  \<open>o[k] = v\<close> on an object: an existing own property keeps its place, a new one is
  appended.
\<close>

fun assoc_set :: "string \<Rightarrow> 'v \<Rightarrow> (string \<times> 'v) list \<Rightarrow> (string \<times> 'v) list" where
  "assoc_set k v [] = [(k, v)]"
| "assoc_set k v (p # ps) = (if fst p = k then (k, v) # ps else p # assoc_set k v ps)"

fun nullish :: "js_value \<Rightarrow> bool" where
  "nullish JUndefined = True"
| "nullish JNull = True"
| "nullish v = False"

subsection \<open>Numbers as text\<close>

definition digit_char :: "nat \<Rightarrow> char" where
  "digit_char d = ''0123456789'' ! d"

function string_of_nat :: "nat \<Rightarrow> string" where
  "string_of_nat n =
     (if n < 10 then [digit_char n] else string_of_nat (n div 10) @ [digit_char (n mod 10)])"
  by pat_completeness auto
termination
  by (relation "measure id") auto

declare string_of_nat.simps [simp del]

definition string_of_int :: "int \<Rightarrow> string" where
  "string_of_int i = (if i < 0 then CHR ''-'' # string_of_nat (nat (- i)) else string_of_nat (nat i))"

text \<open>The property key a value denotes when it is used as \<open>o[v]\<close>.\<close>

fun to_key :: "js_value \<Rightarrow> string" where
  "to_key JUndefined = ''undefined''"
| "to_key JNull = ''null''"
| "to_key (JBool b) = (if b then ''true'' else ''false'')"
| "to_key (JNum n) = string_of_int n"
| "to_key (JStr s) = s"
| "to_key (JObj ps) = ''[object Object]''"

fun indexed_from :: "nat \<Rightarrow> js_value list \<Rightarrow> (string \<times> js_value) list" where
  "indexed_from i [] = []"
| "indexed_from i (v # vs) = (string_of_nat i, v) # indexed_from (Suc i) vs"

definition js_array :: "js_value list \<Rightarrow> js_value" where
  "js_array vs = JObj (indexed_from 0 vs)"

section \<open>Model metadata read by the dialect\<close>

record raw_attribute =
  attr_field :: "string option"
  attr_primaryKey :: bool
  attr_unique :: bool
  attr_autoIncrement :: bool

datatype index_field = FieldName string | FieldObj "string option" string

record model_index =
  idx_unique :: bool
  idx_fields :: "index_field list option"

record db_model =
  rawAttributes :: "(string \<times> raw_attribute) list"
  indexes :: "model_index list"
  uniqueKeys :: "(string \<times> js_value) list"
  autoIncrementAttribute :: "string option"

section \<open>query.js: handleInsertQuery\<close>

text \<open>
  \<open>getInsertIdField()\<close> returns the constant \<open>'id'\<close>. \<open>model.autoIncrementAttribute\<close>
  is a string or \<open>null\<close>; used as a property key, \<open>null\<close> becomes \<open>"null"\<close>.
\<close>

definition getInsertIdField :: string where
  "getInsertIdField = ''id''"

definition attr_key :: "string option \<Rightarrow> string" where
  "attr_key a = (case a of None \<Rightarrow> ''null'' | Some s \<Rightarrow> s)"

text \<open>
  \<open>autoIncrementAttributeAlias\<close>: \<open>null\<close> unless \<open>rawAttributes\<close> owns the attribute and
  its \<open>field\<close> is not \<open>undefined\<close>.
\<close>

definition autoIncrementAttributeAlias :: "db_model \<Rightarrow> js_value" where
  "autoIncrementAttributeAlias m =
     (case map_of (rawAttributes m) (attr_key (autoIncrementAttribute m)) of
        None \<Rightarrow> JNull
      | Some a \<Rightarrow> (case attr_field a of None \<Rightarrow> JNull | Some f \<Rightarrow> JStr f))"

text \<open>The four assignments \<open>id = id || ...\<close> of the source, in order.\<close>

definition insert_id :: "db_model \<Rightarrow> js_value \<Rightarrow> js_value \<Rightarrow> js_value" where
  "insert_id m results metaData =
     (let autoInc = attr_key (autoIncrementAttribute m);
          alias = autoIncrementAttributeAlias m;
          row = js_prop results ''0'';
          id0 = JNull;
          id1 = js_or id0 (js_and results (js_and row (js_prop row getInsertIdField)));
          id2 = js_or id1 (js_and metaData (js_prop metaData getInsertIdField));
          id3 = js_or id2 (js_and results (js_and row (js_prop row autoInc)));
          id4 = js_or id3 (js_and alias (js_and results (js_and row (js_prop row (to_key alias)))))
      in id4)"

text \<open>
  \<open>handleInsertQuery\<close> returns nothing; its effect is the write to \<open>this.instance\<close>,
  so the model returns the instance. Without a bound instance nothing happens. The file
  is in strict mode, where a property write on a primitive throws.
\<close>

definition handleInsertQuery ::
  "js_value \<Rightarrow> db_model \<Rightarrow> js_value \<Rightarrow> js_value \<Rightarrow> js_exn + js_value" where
  "handleInsertQuery inst m results metaData =
     (if truthy inst
      then (case inst of
              JObj ps \<Rightarrow>
                Inr (JObj (assoc_set (attr_key (autoIncrementAttribute m))
                             (insert_id m results metaData) ps))
            | _ \<Rightarrow> Inl TypeError)
      else Inr inst)"

section \<open>Strings and the regular expressions of query.js\<close>

definition starts_with :: "string \<Rightarrow> string \<Rightarrow> bool" where
  "starts_with s p = (take (length p) s = p)"

fun contains :: "string \<Rightarrow> string \<Rightarrow> bool" where
  "contains [] p = (p = [])"
| "contains (c # cs) p = (starts_with (c # cs) p \<or> contains cs p)"

definition strip_prefix :: "string \<Rightarrow> string \<Rightarrow> string option" where
  "strip_prefix p s = (if starts_with s p then Some (drop (length p) s) else None)"

text \<open>
  \<open>\d\<close> is an ASCII digit; \<open>.\<close> is any character but a line terminator (of the four
  JavaScript line terminators the two below are single code units in this model).
\<close>

definition char_code :: "char \<Rightarrow> nat" where
  "char_code c = of_char c"

definition is_digit :: "char \<Rightarrow> bool" where
  "is_digit c = (48 \<le> char_code c \<and> char_code c \<le> 57)"

text \<open>The number a string of digits denotes.\<close>

definition number_of_digits :: "string \<Rightarrow> int" where
  "number_of_digits ds = foldl (\<lambda>n c. 10 * n + (int (char_code c) - 48)) 0 ds"

definition re_dot :: "char \<Rightarrow> bool" where
  "re_dot c = (c \<noteq> CHR 0x0A \<and> c \<noteq> CHR 0x0D)"

text \<open>
  A backtracking matcher in continuation style, as the JavaScript engine runs these
  patterns. \<open>greedy_many p k acc s\<close> is \<open>p*\<close> followed by the rest of the pattern
  \<open>k\<close>: it first takes as many characters as it can and gives one back at a time while
  \<open>k\<close> fails. \<open>lazy_many\<close> is \<open>p*?\<close>: it tries \<open>k\<close> first and takes one more character
  while \<open>k\<close> fails. \<open>search_from\<close> tries the pattern at every start position, leftmost
  first, as an unanchored \<open>String.prototype.match\<close> does.
\<close>

fun greedy_many :: "(char \<Rightarrow> bool) \<Rightarrow> (string \<Rightarrow> string \<Rightarrow> 'a option) \<Rightarrow> string \<Rightarrow> string \<Rightarrow> 'a option" where
  "greedy_many p k acc [] = k acc []"
| "greedy_many p k acc (c # cs) =
     (if p c
      then (case greedy_many p k (acc @ [c]) cs of Some r \<Rightarrow> Some r | None \<Rightarrow> k acc (c # cs))
      else k acc (c # cs))"

fun lazy_many :: "(char \<Rightarrow> bool) \<Rightarrow> (string \<Rightarrow> string \<Rightarrow> 'a option) \<Rightarrow> string \<Rightarrow> string \<Rightarrow> 'a option" where
  "lazy_many p k acc [] = k acc []"
| "lazy_many p k acc (c # cs) =
     (case k acc (c # cs) of
        Some r \<Rightarrow> Some r
      | None \<Rightarrow> (if p c then lazy_many p k (acc @ [c]) cs else None))"

fun search_from :: "(string \<Rightarrow> 'a option) \<Rightarrow> string \<Rightarrow> 'a option" where
  "search_from m [] = m []"
| "search_from m (c # cs) = (case m (c # cs) of Some r \<Rightarrow> Some r | None \<Rightarrow> search_from m cs)"

subsection \<open>The unique-violation pattern\<close>

text \<open>
  \<^verbatim>\<open>/SQL0803N  One or more ... identified by "(\d)+" constrains table "(.*)\.(.*)" from
  having duplicate values for the index key./\<close>.
  Group 1 is \<open>(\d)\<close> under the \<open>+\<close>: after the match it holds the last repetition only,
  that is the last digit of the index id.
\<close>

definition unique_head :: string where
  \<open>unique_head = ''SQL0803N  One or more values in the INSERT statement, UPDATE statement, or foreign key update caused by a DELETE statement are not valid because the primary key, unique constraint or unique index identified by "''\<close>

definition unique_mid :: string where
  \<open>unique_mid = ''" constrains table "''\<close>

definition unique_tail :: string where
  \<open>unique_tail = ''" from having duplicate values for the index key''\<close>

definition match_unique_at :: "string \<Rightarrow> (string \<times> string \<times> string) option" where
  "match_unique_at s =
     (case strip_prefix unique_head s of
        None \<Rightarrow> None
      | Some s1 \<Rightarrow>
          greedy_many is_digit
            (\<lambda>ds s2.
               if ds = [] then None
               else (case strip_prefix unique_mid s2 of
                  None \<Rightarrow> None
                | Some s3 \<Rightarrow>
                    greedy_many re_dot
                      (\<lambda>g2 s4.
                         (case s4 of
                            [] \<Rightarrow> None
                          | c # s5 \<Rightarrow>
                              if c \<noteq> CHR ''.'' then None
                              else greedy_many re_dot
                                (\<lambda>g3 s6.
                                   (case strip_prefix unique_tail s6 of
                                      None \<Rightarrow> None
                                    | Some s7 \<Rightarrow>
                                        (case s7 of
                                           [] \<Rightarrow> None
                                         | d # s8 \<Rightarrow>
                                             if re_dot d then Some ([last ds], g2, g3) else None)))
                                [] s5))
                      [] s3))
            [] s1)"

definition match_unique :: "string \<Rightarrow> (string \<times> string \<times> string) option" where
  "match_unique msg = search_from match_unique_at msg"

subsection \<open>The foreign-key patterns\<close>

definition fk_head :: string where
  \<open>fk_head = ''SQL0532N  A parent row cannot be deleted because the relationship "''\<close>

definition fk_tail :: string where
  \<open>fk_tail = ''" restricts the deletion''\<close>

definition match_fk_at :: "string \<Rightarrow> string option" where
  "match_fk_at s =
     (case strip_prefix fk_head s of
        None \<Rightarrow> None
      | Some s1 \<Rightarrow>
          greedy_many re_dot
            (\<lambda>g s2. if starts_with s2 fk_tail then Some g else None) [] s1)"

text \<open>
  The three alternatives joined by \<open>||\<close>; the result is \<open>match[1]\<close>, which the two
  patterns without a group leave \<open>undefined\<close>.
\<close>

definition match_fk :: "string \<Rightarrow> string option option" where
  "match_fk msg =
     (case search_from match_fk_at msg of
        Some g \<Rightarrow> Some (Some g)
      | None \<Rightarrow>
          if contains msg ''SQL0530N'' then Some None
          else if contains msg ''SQL0531N'' then Some None
          else None)"

subsection \<open>The undefined-name pattern and the table name in the SQL text\<close>

definition undef_head :: string where
  \<open>undef_head = ''SQL0204N  "''\<close>

definition undef_tail :: string where
  \<open>undef_tail = ''" is an undefined name''\<close>

text \<open>The pair is \<open>(match[0], match[1])\<close>: the whole matched text and the name.\<close>

definition match_undefined_at :: "string \<Rightarrow> (string \<times> string) option" where
  "match_undefined_at s =
     (case strip_prefix undef_head s of
        None \<Rightarrow> None
      | Some s1 \<Rightarrow>
          greedy_many re_dot
            (\<lambda>g s2.
               (case strip_prefix undef_tail s2 of
                  None \<Rightarrow> None
                | Some s3 \<Rightarrow>
                    (case s3 of
                       [] \<Rightarrow> None
                     | d # s4 \<Rightarrow>
                         if re_dot d then Some (undef_head @ g @ undef_tail @ [d], g) else None)))
            [] s1)"

definition match_undefined :: "string \<Rightarrow> (string \<times> string) option" where
  "match_undefined msg = search_from match_undefined_at msg"

definition lower_char :: "char \<Rightarrow> char" where
  "lower_char c = (if 65 \<le> char_code c \<and> char_code c \<le> 90 then char_of (char_code c + 32) else c)"

text \<open>\<^verbatim>\<open>/table "(.+?)"/i\<close>: the literal part ignores case, the group is lazy.\<close>

definition match_table_at :: "string \<Rightarrow> string option" where
  \<open>match_table_at s =
     (if map lower_char (take 7 s) = ''table "''
      then (case drop 7 s of
              [] \<Rightarrow> None
            | c # cs \<Rightarrow>
                if re_dot c
                then lazy_many re_dot
                       (\<lambda>g r. (case r of [] \<Rightarrow> None | q # r' \<Rightarrow> if q = CHR 0x22 then Some g else None))
                       [c] cs
                else None)
      else None)\<close>

definition match_table :: "string \<Rightarrow> string option" where
  "match_table sql = search_from match_table_at sql"

section \<open>query.js: the Query object\<close>

text \<open>
  A driver error is an object with an optional \<open>message\<close> and an optional \<open>sql\<close>
  (\<open>None\<close> is \<open>undefined\<close>); a missing error is \<open>null\<close>, modelled by \<open>None\<close> of
  \<open>raw_error option\<close>.
\<close>

record raw_error =
  err_message :: "string option"
  err_sql :: "string option"

definition error_value :: "raw_error \<Rightarrow> js_value" where
  "error_value e =
     JObj ((case err_message e of None \<Rightarrow> [] | Some m \<Rightarrow> [(''message'', JStr m)]) @
           (case err_sql e of None \<Rightarrow> [] | Some q \<Rightarrow> [(''sql'', JStr q)]))"

record validation_item =
  vi_message :: string
  vi_type :: string
  vi_path :: string
  vi_value :: js_value
  vi_instance :: js_value
  vi_validatorKey :: string

datatype semantic_error =
    UniqueConstraintError js_value "validation_item list" raw_error "(string \<times> js_value) list"
  | ForeignKeyConstraintError "string option" raw_error
  | UnknownConstraintError string string "string option" raw_error
  | DatabaseError raw_error

text \<open>
  \<open>this.options\<close>, as far as the functions below read it. The constructor stores
  \<open>options.instance\<close> as \<open>this.instance\<close> too, so both are \<open>opt_instance\<close>.
\<close>

record query_options =
  opt_where :: js_value
  opt_fields :: js_value
  opt_instance :: js_value
  opt_transaction :: js_value

text \<open>The arguments of one call of \<open>formatResults\<close>, with \<open>this.sql\<close> at that moment.\<close>

record format_args =
  fr_sql :: string
  fr_data :: js_value
  fr_rowCount :: js_value
  fr_metadata :: js_value
  fr_conn :: bool

text \<open>
  The Query object. Three members come from the base class \<open>AbstractQuery\<close> or depend
  on it and are parameters here: \<open>getUniqueConstraintErrorMessage\<close>, \<open>isSelectQuery\<close>,
  and the value \<open>formatResults\<close> computes (its dispatch is over the base class's
  statement predicates); \<open>q_coerce\<close> stands for the per-cell conversions of \<open>_run\<close>
  that call the parser store, \<open>moment\<close> and \<open>Buffer\<close>.
\<close>

record query_ctx =
  q_model :: "db_model option"
  q_options :: query_options
  q_getUniqueConstraintErrorMessage :: "string \<Rightarrow> string"
  q_isSelectQuery :: bool
  q_formatResults :: "format_args \<Rightarrow> js_exn + js_value"
  q_coerce :: "js_value list \<Rightarrow> js_value list \<Rightarrow> js_exn + js_value list"

subsection \<open>formatError\<close>

text \<open>
  The opening guard \<open>if (!(err || err.message)) err["message"] = "No error message
  found."\<close>. For \<open>null\<close> the right operand of \<open>||\<close> is evaluated and reads a property
  of \<open>null\<close>.
\<close>

definition formatError_default :: "raw_error option \<Rightarrow> js_exn + raw_error" where
  "formatError_default err =
     (case err of
        None \<Rightarrow> Inl TypeError
      | Some e \<Rightarrow>
          if \<not> truthy (js_or (error_value e) (js_prop (error_value e) ''message''))
          then Inr (e\<lparr>err_message := Some ''No error message found.''\<rparr>)
          else Inr e)"

definition index_query :: "string \<times> string \<times> string \<Rightarrow> string" where
  "index_query m =
     (case m of (m1, m2, m3) \<Rightarrow>
        ''SELECT INDNAME FROM SYSCAT.INDEXES  WHERE IID = '' @ m1 @
        '' AND TABSCHEMA = '' @ [CHR 0x27] @ m2 @ [CHR 0x27] @
        '' AND TABNAME = '' @ [CHR 0x27] @ m3 @ [CHR 0x27])"

text \<open>
  \<open>uniqueIndexName\<close>: the empty string without a connection, else
  \<open>conn.querySync(query)[0]['INDNAME']\<close>, which throws when the answer has no first row.
\<close>

definition resolve_index_name ::
  "(string \<Rightarrow> js_value) option \<Rightarrow> string \<times> string \<times> string \<Rightarrow> js_exn + js_value" where
  "resolve_index_name conn m =
     (case conn of
        None \<Rightarrow> Inr (JStr [])
      | Some querySync \<Rightarrow>
          (let rows = querySync (index_query m) in
           if nullish rows then Inl TypeError
           else (let row = js_prop rows ''0'' in
                 if nullish row then Inl TypeError else Inr (js_prop row ''INDNAME''))))"

text \<open>
  \<open>uniqueKey\<close>: first \<open>this.model.uniqueKeys[uniqueIndexName]\<close>, then, when that is
  falsy, \<open>this.options.fields[match[1] - 1]\<close>.
\<close>

definition resolve_unique_key :: "query_ctx \<Rightarrow> js_value \<Rightarrow> string \<Rightarrow> js_value" where
  "resolve_unique_key this uniqueIndexName m1 =
     (let k0 = JStr [];
          k1 = (case q_model this of
                  None \<Rightarrow> k0
                | Some mdl \<Rightarrow>
                    if truthy uniqueIndexName
                    then js_prop (JObj (uniqueKeys mdl)) (to_key uniqueIndexName)
                    else k0)
      in if \<not> truthy k1 \<and> truthy (opt_fields (q_options this))
         then js_prop (opt_fields (q_options this)) (string_of_int (number_of_digits m1 - 1))
         else k1)"

text \<open>The \<open>fields\<close> object the \<open>if (!!uniqueKey)\<close> block fills.\<close>

definition attribute_fields :: "query_options \<Rightarrow> js_value \<Rightarrow> js_value \<Rightarrow> (string \<times> js_value) list" where
  "attribute_fields opts parameters uniqueKey =
     (if truthy uniqueKey
      then (let col = to_key (js_prop uniqueKey ''column'');
                dataValues = js_prop (opt_instance opts) ''dataValues''
            in if truthy (opt_where opts) \<and> js_prop (opt_where opts) col \<noteq> JUndefined
               then [(col, js_prop (opt_where opts) col)]
               else if truthy (opt_instance opts) \<and> truthy dataValues \<and> truthy (js_prop dataValues col)
               then [(col, js_prop dataValues col)]
               else if truthy parameters
               then [(col, js_prop parameters ''0'')]
               else [])
      else [])"

definition unique_message :: "string \<Rightarrow> js_value \<Rightarrow> js_value" where
  "unique_message msg uniqueKey =
     (if truthy uniqueKey \<and> truthy (js_prop uniqueKey ''msg'')
      then js_prop uniqueKey ''msg''
      else JStr msg)"

definition violation_item :: "query_ctx \<Rightarrow> string \<times> js_value \<Rightarrow> validation_item" where
  "violation_item this fv =
     \<lparr> vi_message = q_getUniqueConstraintErrorMessage this (fst fv),
       vi_type = ''unique violation'',
       vi_path = fst fv,
       vi_value = snd fv,
       vi_instance = opt_instance (q_options this),
       vi_validatorKey = ''not_unique'' \<rparr>"

definition unique_error ::
  "query_ctx \<Rightarrow> raw_error \<Rightarrow> string \<Rightarrow> string \<times> string \<times> string \<Rightarrow>
   (string \<Rightarrow> js_value) option \<Rightarrow> js_value \<Rightarrow> js_exn + semantic_error" where
  "unique_error this e msg m conn parameters =
     (case resolve_index_name conn m of
        Inl x \<Rightarrow> Inl x
      | Inr uniqueIndexName \<Rightarrow>
          (let uniqueKey = resolve_unique_key this uniqueIndexName (fst m);
               fields = attribute_fields (q_options this) parameters uniqueKey;
               message = unique_message msg uniqueKey;
               errors = map (violation_item this) fields
           in Inr (UniqueConstraintError message errors e fields)))"

definition formatError ::
  "query_ctx \<Rightarrow> raw_error option \<Rightarrow> (string \<Rightarrow> js_value) option \<Rightarrow> js_value \<Rightarrow>
   js_exn + semantic_error" where
  "formatError this err conn parameters =
     (case formatError_default err of
        Inl x \<Rightarrow> Inl x
      | Inr e \<Rightarrow>
          (case err_message e of
             None \<Rightarrow> Inl TypeError
           | Some msg \<Rightarrow>
               (case match_unique msg of
                  Some m \<Rightarrow> unique_error this e msg m conn parameters
                | None \<Rightarrow>
                    (case match_fk msg of
                       Some idx \<Rightarrow> Inr (ForeignKeyConstraintError idx e)
                     | None \<Rightarrow>
                         (case match_undefined msg of
                            Some mm \<Rightarrow>
                              (case err_sql e of
                                 None \<Rightarrow> Inl TypeError
                               | Some q \<Rightarrow>
                                   Inr (UnknownConstraintError (fst mm) (snd mm) (match_table q) e))
                          | None \<Rightarrow> Inr (DatabaseError e))))))"

subsection \<open>handleShowIndexesQuery\<close>

text \<open>
  \<open>String.prototype.replace\<close> with a string pattern replaces the first occurrence
  only; \<open>split(' ')\<close> cuts at every blank; \<open>trim\<close> removes white space at both ends.
\<close>

fun replace_first :: "string \<Rightarrow> string \<Rightarrow> string \<Rightarrow> string" where
  "replace_first pat rep [] = (if pat = [] then rep else [])"
| "replace_first pat rep (c # cs) =
     (if starts_with (c # cs) pat then rep @ drop (length pat) (c # cs)
      else c # replace_first pat rep cs)"

fun split_on :: "char \<Rightarrow> string \<Rightarrow> string list" where
  "split_on sep [] = [[]]"
| "split_on sep (c # cs) =
     (if c = sep then [] # split_on sep cs
      else (case split_on sep cs of [] \<Rightarrow> [[c]] | w # ws \<Rightarrow> (c # w) # ws))"

definition is_space :: "char \<Rightarrow> bool" where
  "is_space c = (char_code c = 32 \<or> (9 \<le> char_code c \<and> char_code c \<le> 13))"

definition trim :: "string \<Rightarrow> string" where
  "trim s = rev (dropWhile is_space (rev (dropWhile is_space s)))"

record index_row =
  row_name :: string
  row_tableName :: string
  row_keyType :: string
  row_COLNAMES :: string
  row_type :: string

datatype sort_order = ASC | DESC

text \<open>One entry of \<open>fields\<close>; its \<open>length\<close> and \<open>collate\<close> are always \<open>undefined\<close>.\<close>

record field_entry =
  fe_attribute :: string
  fe_order :: sort_order

record index_descriptor =
  ix_primary :: bool
  ix_fields :: "field_entry list"
  ix_name :: string
  ix_tableName :: string
  ix_unique :: bool
  ix_type :: string

text \<open>The body of the \<open>_.forEach\<close> over the pieces of \<open>COLNAMES\<close>.\<close>

definition column_entry :: "string \<Rightarrow> field_entry list" where
  "column_entry column =
     (let columnName = trim column
      in if columnName \<noteq> []
         then [\<lparr> fe_attribute = replace_first ''+'' [] (replace_first ''-'' [] columnName),
                 fe_order = (if CHR ''-'' \<notin> set column then ASC else DESC) \<rparr>]
         else [])"

definition colnames_fields :: "string \<Rightarrow> field_entry list" where
  "colnames_fields colnames =
     concat (map column_entry
       (split_on CHR '' '' (replace_first ''-'' '' -'' (replace_first ''+'' '' +'' colnames))))"

text \<open>
  The reducer's \<open>acc\<close> is a plain object keyed by index name: each own key holds the
  first row of that name, whose \<open>fields\<close> collect the entries. \<open>item.name in acc\<close> also
  holds for the names every object inherits from \<open>Object.prototype\<close>; such a name is
  never stored, and the first \<open>push\<close> onto \<open>acc[item.name].fields\<close> then throws.
\<close>

definition inherited_names :: "string list" where
  "inherited_names =
     [''constructor'', ''toString'', ''toLocaleString'', ''valueOf'', ''hasOwnProperty'',
      ''isPrototypeOf'', ''propertyIsEnumerable'', ''__proto__'', ''__defineGetter__'',
      ''__defineSetter__'', ''__lookupGetter__'', ''__lookupSetter__'']"

definition group_index_row ::
  "(string \<times> index_row \<times> field_entry list) list \<Rightarrow> index_row \<Rightarrow>
   js_exn + (string \<times> index_row \<times> field_entry list) list" where
  "group_index_row acc item =
     (if row_name item \<notin> fst ` set acc \<and> row_name item \<in> set inherited_names
      then (if colnames_fields (row_COLNAMES item) = [] then Inr acc else Inl TypeError)
      else (let acc1 = (if row_name item \<in> fst ` set acc then acc
                        else acc @ [(row_name item, item, [])])
            in Inr (map (\<lambda>(n, it, fs).
                      if n = row_name item then (n, it, fs @ colnames_fields (row_COLNAMES item))
                      else (n, it, fs)) acc1)))"

text \<open>\<open>_.reduce\<close> over the rows; an exception ends it.\<close>

fun group_index_rows ::
  "(string \<times> index_row \<times> field_entry list) list \<Rightarrow> index_row list \<Rightarrow>
   js_exn + (string \<times> index_row \<times> field_entry list) list" where
  "group_index_rows acc [] = Inr acc"
| "group_index_rows acc (item # items) =
     (case group_index_row acc item of
        Inl x \<Rightarrow> Inl x
      | Inr acc1 \<Rightarrow> group_index_rows acc1 items)"

text \<open>
  The order in which \<open>_.map\<close> visits the keys of an object: first the keys that are
  array indices (decimal numbers up to \<open>2^32 - 2\<close> without a leading zero), by
  increasing value, then the other keys as they were added.
\<close>

definition is_array_index :: "string \<Rightarrow> bool" where
  "is_array_index k =
     (k \<noteq> [] \<and> list_all is_digit k \<and> (length k = 1 \<or> hd k \<noteq> CHR ''0'') \<and>
      number_of_digits k < 4294967295)"

definition enumeration_order :: "(string \<times> 'a) list \<Rightarrow> (string \<times> 'a) list" where
  "enumeration_order ps =
     sort_key (\<lambda>p. number_of_digits (fst p)) (filter (\<lambda>p. is_array_index (fst p)) ps) @
     filter (\<lambda>p. \<not> is_array_index (fst p)) ps"

definition describe_index :: "string \<times> index_row \<times> field_entry list \<Rightarrow> index_descriptor" where
  "describe_index g =
     (case g of (n, item, fs) \<Rightarrow>
        \<lparr> ix_primary = (row_keyType item = ''P''),
          ix_fields = fs,
          ix_name = row_name item,
          ix_tableName = row_tableName item,
          ix_unique = (row_keyType item = ''U''),
          ix_type = row_type item \<rparr>)"

definition handleShowIndexesQuery :: "index_row list \<Rightarrow> js_exn + index_descriptor list" where
  "handleShowIndexesQuery data =
     (case group_index_rows [] data of
        Inl x \<Rightarrow> Inl x
      | Inr acc \<Rightarrow> Inr (map describe_index (enumeration_order acc)))"

subsection \<open>_run\<close>

text \<open>
  The driver as \<open>_run\<close> sees it: what each primitive hands to its callback. Every
  primitive is taken to call its callback exactly once.
\<close>

datatype driver_result =
    NotAnObject
  | NullResult
  | ResultSet "js_value list" "js_value list" nat

record statement =
  st_execute :: "js_value list \<Rightarrow> raw_error option \<times> driver_result"

record connection =
  on_beginTransaction :: "raw_error option"
  on_commitTransaction :: "js_value \<Rightarrow> raw_error option"
  on_rollbackTransaction :: "raw_error option"
  on_prepare :: "string \<Rightarrow> raw_error option \<times> statement option"
  conn_querySync :: "string \<Rightarrow> js_value"

text \<open>
  What a run does, in order: calls into the driver, attempts to settle the promise, and
  an exception that escapes. The promise takes the first settlement.
\<close>

datatype driver_call =
    BeginTransaction
  | CommitTransaction js_value
  | RollbackTransaction
  | Prepare string
  | Execute "js_value list"
  | GetAffectedRowsSync
  | FetchAllSync
  | GetColumnMetadataSync
  | ResultCloseSync
  | StmtCloseSync

datatype event =
    Call driver_call
  | Resolve js_value
  | Reject semantic_error
  | Throw js_exn

fun is_throw :: "event \<Rightarrow> bool" where
  "is_throw (Throw x) = True"
| "is_throw e = False"

definition and_then :: "event list \<Rightarrow> event list \<Rightarrow> event list" where
  "and_then es rest = (if list_ex is_throw es then es else es @ rest)"

fun first_settlement :: "event list \<Rightarrow> event option" where
  "first_settlement [] = None"
| "first_settlement (Resolve v # es) = Some (Resolve v)"
| "first_settlement (Reject e # es) = Some (Reject e)"
| "first_settlement (e # es) = first_settlement es"

definition resolve_formatted :: "query_ctx \<Rightarrow> format_args \<Rightarrow> event list" where
  "resolve_formatted this a =
     (case q_formatResults this a of Inl x \<Rightarrow> [Throw x] | Inr v \<Rightarrow> [Resolve v])"

definition reject_formatted ::
  "query_ctx \<Rightarrow> raw_error option \<Rightarrow> (string \<Rightarrow> js_value) option \<Rightarrow> js_value \<Rightarrow> event list" where
  "reject_formatted this err conn parameters =
     (case formatError this err conn parameters of Inl x \<Rightarrow> [Throw x] | Inr e \<Rightarrow> [Reject e])"

definition no_args :: "string \<Rightarrow> format_args" where
  "no_args sql = \<lparr> fr_sql = sql, fr_data = JUndefined, fr_rowCount = JUndefined,
                   fr_metadata = JUndefined, fr_conn = False \<rparr>"

text \<open>The callback shared by the three plain transaction statements.\<close>

definition transaction_callback :: "query_ctx \<Rightarrow> string \<Rightarrow> raw_error option \<Rightarrow> event list" where
  "transaction_callback this sql err =
     (case err of
        Some e \<Rightarrow> reject_formatted this (Some e) None JUndefined
      | None \<Rightarrow> resolve_formatted this (no_args sql))"

text \<open>
  The chain of tests on a driver error with a non-empty message; \<open>True\<close> is
  \<open>err = null\<close>. \<open>String.prototype.search\<close> is given plain text without pattern
  characters, so it is a substring test.
\<close>

definition reason_code_2 :: string where
  \<open>reason_code_2 = ''Reason code "2"''\<close>

definition benign :: "string \<Rightarrow> string \<Rightarrow> bool" where
  "benign this_sql msg =
     (if contains msg ''SQL0204N'' \<and> starts_with this_sql ''DROP '' then True
      else if contains msg ''SQL0443N'' then True
      else if contains msg ''SQL0601N'' then True
      else if contains msg ''SQL0911N'' then (if contains msg reason_code_2 then True else False)
      else if contains msg ''SQL0605W'' then True
      else False)"

definition suppress :: "string \<Rightarrow> raw_error option \<Rightarrow> raw_error option" where
  "suppress this_sql err =
     (case err of
        None \<Rightarrow> None
      | Some e \<Rightarrow>
          (case err_message e of
             None \<Rightarrow> Some e
           | Some msg \<Rightarrow> if msg \<noteq> [] \<and> benign this_sql msg then None else Some e))"

definition was_suppressed :: "string \<Rightarrow> raw_error option \<Rightarrow> bool" where
  "was_suppressed this_sql err = (err \<noteq> None \<and> suppress this_sql err = None)"

definition empty_args :: "string \<Rightarrow> format_args" where
  "empty_args this_sql = \<lparr> fr_sql = this_sql, fr_data = js_array [], fr_rowCount = JNum 0,
                           fr_metadata = JUndefined, fr_conn = False \<rparr>"

text \<open>The \<open>else\<close> branch of the execute callback: collect, convert and resolve.\<close>

definition collect_result ::
  "query_ctx \<Rightarrow> connection \<Rightarrow> string \<Rightarrow> driver_result \<Rightarrow> event list" where
  "collect_result this conn this_sql result =
     (case result of
        NullResult \<Rightarrow> [Throw TypeError]
      | NotAnObject \<Rightarrow>
          Call StmtCloseSync #
          resolve_formatted this (empty_args this_sql)
      | ResultSet rows metadata affected \<Rightarrow>
          (if starts_with this_sql ''DELETE FROM ''
           then [Call GetAffectedRowsSync, Call ResultCloseSync, Call StmtCloseSync] @
                resolve_formatted this
                  \<lparr> fr_sql = this_sql, fr_data = js_array [], fr_rowCount = JNum (int affected),
                    fr_metadata = JUndefined, fr_conn = False \<rparr>
           else [Call FetchAllSync, Call GetColumnMetadataSync, Call ResultCloseSync,
                 Call StmtCloseSync] @
                (if rows \<noteq> []
                 then (case q_coerce this metadata rows of
                         Inl x \<Rightarrow> [Throw x]
                       | Inr data \<Rightarrow>
                           resolve_formatted this
                             \<lparr> fr_sql = this_sql, fr_data = js_array data,
                               fr_rowCount = JNum (int (length rows)),
                               fr_metadata = js_array metadata, fr_conn = True \<rparr>)
                 else resolve_formatted this (empty_args this_sql))))"

text \<open>
  The callback of \<open>stmt.execute\<close>. \<open>sql\<close> is the argument of \<open>_run\<close>, \<open>this_sql\<close> the
  text that was prepared. After a suppressed error the callback resolves and then runs
  on into the \<open>else\<close> branch, since \<open>err\<close> is now \<open>null\<close>.
\<close>

definition execute_callback ::
  "query_ctx \<Rightarrow> connection \<Rightarrow> string \<Rightarrow> string \<Rightarrow> js_value \<Rightarrow>
   raw_error option \<Rightarrow> driver_result \<Rightarrow> event list" where
  "execute_callback this conn sql this_sql parameters err result =
     and_then
       (if was_suppressed this_sql err
        then resolve_formatted this (empty_args this_sql)
        else [])
       (case suppress this_sql err of
          Some e \<Rightarrow>
            Call StmtCloseSync #
            reject_formatted this (Some (e\<lparr>err_sql := Some sql\<rparr>))
              (Some (conn_querySync conn)) parameters
        | None \<Rightarrow> collect_result this conn this_sql result)"

text \<open>
  The bound parameters: the own values of \<open>parameters\<close> when it is truthy
  (\<open>getSQLTypeFromJsType\<close> only rewrites a Buffer, which the value model does not have).
\<close>

fun bound_params :: "js_value \<Rightarrow> js_value list" where
  "bound_params (JObj ps) = map snd ps"
| "bound_params v = []"

text \<open>
  A SELECT without \<open>' FROM '\<close> from position 8 on gets the dummy table appended, after a
  final \<open>;\<close> is cut off.
\<close>

definition final_sql :: "query_ctx \<Rightarrow> string \<Rightarrow> string" where
  "final_sql this sql =
     (if q_isSelectQuery this \<and> \<not> contains (drop 8 sql) '' FROM ''
      then (if sql \<noteq> [] \<and> last sql = CHR '';'' then butlast sql else sql) @ '' FROM SYSIBM.SYSDUMMY1''
      else sql)"

definition run_statement :: "query_ctx \<Rightarrow> connection \<Rightarrow> string \<Rightarrow> js_value \<Rightarrow> event list" where
  "run_statement this conn sql parameters =
     (let params = bound_params parameters;
          this_sql = final_sql this sql
      in Call (Prepare this_sql) #
         (case on_prepare conn this_sql of (perr, stmt) \<Rightarrow>
            and_then
              (case perr of
                 Some e \<Rightarrow> reject_formatted this (Some e) None JUndefined
               | None \<Rightarrow> [])
              (case stmt of
                 None \<Rightarrow> [Throw TypeError]
               | Some st \<Rightarrow>
                   Call (Execute params) #
                   (case st_execute st params of (err, result) \<Rightarrow>
                      execute_callback this conn sql this_sql parameters err result))))"

text \<open>
  \<open>_run\<close>: the promise's executor with the callbacks it installs. Logging and the
  benchmark clock are left out.
\<close>

definition run :: "query_ctx \<Rightarrow> connection \<Rightarrow> string \<Rightarrow> js_value \<Rightarrow> event list" where
  "run this conn sql parameters =
     (if starts_with sql ''BEGIN TRANSACTION''
      then Call BeginTransaction # transaction_callback this sql (on_beginTransaction conn)
      else if starts_with sql ''COMMIT TRANSACTION''
      then Call (CommitTransaction JUndefined) #
           transaction_callback this sql (on_commitTransaction conn JUndefined)
      else if starts_with sql ''ROLLBACK TRANSACTION''
      then Call RollbackTransaction # transaction_callback this sql (on_rollbackTransaction conn)
      else if starts_with sql ''SAVE TRANSACTION''
      then (if nullish (opt_transaction (q_options this)) then [Throw TypeError]
            else (let name = js_prop (opt_transaction (q_options this)) ''name''
                  in Call (CommitTransaction name) #
                     (case on_commitTransaction conn name of
                        Some e \<Rightarrow> reject_formatted this (Some e) None JUndefined
                      | None \<Rightarrow>
                          Call BeginTransaction #
                          transaction_callback this sql (on_beginTransaction conn))))
      else run_statement this conn sql parameters)"

section \<open>The query generator (src/unnamed/part_000)\<close>

text \<open>
  \<open>Db2QueryGenerator\<close> extends \<open>AbstractQueryGenerator\<close> and calls \<open>Utils\<close>; neither
  is among the sources. What the three builders below use of them is a parameter:
  identifier and value quoting, \<open>format\<close> (which writes a bind placeholder and pushes the
  value), \<open>whereQuery\<close>, the base \<open>updateQuery\<close>, the test
  \<open>value instanceof Utils.SequelizeMethod\<close> and \<open>Utils.removeNullValuesFromHash\<close>.
  Template expansion is written as the concatenation it produces; \<open>outputFragment\<close> is
  never assigned and expands to nothing.
\<close>

datatype bind_param = BPUndefined | BPFalse | BPCustom

record escape_opts =
  eo_context :: string
  eo_datewithtz :: "bool option"

record gen_options =
  go_bindParam :: bind_param
  go_searchPath :: js_value
  go_onDuplicate :: js_value
  go_ignoreDuplicates :: js_value
  go_dialect :: js_value
  go_limit :: js_value
  go_omitNull :: js_value

record sql_result =
  sql_query :: string
  sql_bind :: "js_value list option"

record base_layer =
  quoteTable :: "string \<Rightarrow> string"
  quoteIdentifier :: "string \<Rightarrow> string"
  escape :: "js_value \<Rightarrow> raw_attribute option \<Rightarrow> escape_opts option \<Rightarrow> string"
  format :: "js_value \<Rightarrow> raw_attribute option \<Rightarrow> escape_opts \<Rightarrow> bind_param \<Rightarrow>
             js_value list \<Rightarrow> string \<times> js_value list"
  whereQuery :: "js_value \<Rightarrow> gen_options \<Rightarrow> bind_param \<Rightarrow> js_value list \<Rightarrow> string \<times> js_value list"
  super_updateQuery :: "string \<Rightarrow> (string \<times> js_value) list \<Rightarrow> js_value \<Rightarrow> gen_options \<Rightarrow>
                        (string \<times> raw_attribute) list option \<Rightarrow> sql_result"
  isSequelizeMethod :: "js_value \<Rightarrow> bool"
  removeNullValuesFromHash :: "(string \<times> js_value) list \<Rightarrow> js_value \<Rightarrow> gen_options option \<Rightarrow>
                               (string \<times> js_value) list"

text \<open>\<open>this._dialect.supports\<close>: declared with the dialect, outside the sources.\<close>

record dialect_supports =
  sup_values_empty :: bool
  sup_on_duplicate_key :: bool
  sup_autoIncrement_defaultValue :: bool
  sup_DEFAULT :: bool
  sup_ignoreDuplicates :: string

record generator =
  autoGenValue :: int
  g_options :: gen_options
  g_supports :: dialect_supports
  g_prependSearchPath :: bool
  g_base :: base_layer

text \<open>
  The constructor sets \<open>this.autoGenValue = 1\<close>. \<open>autoGenValue++\<close> is on a JavaScript
  number: beyond \<open>2^53\<close> adding one no longer changes it.
\<close>

definition js_increment :: "int \<Rightarrow> int" where
  "js_increment n = (if n < 2 ^ 53 then n + 1 else n)"

text \<open>\<open>_.defaults(options, this.options)\<close>: a property that is \<open>undefined\<close> is filled in.\<close>

definition default_value :: "js_value \<Rightarrow> js_value \<Rightarrow> js_value" where
  "default_value v d = (if v = JUndefined then d else v)"

definition defaults :: "gen_options \<Rightarrow> gen_options \<Rightarrow> gen_options" where
  "defaults opts d =
     \<lparr> go_bindParam = (if go_bindParam opts = BPUndefined then go_bindParam d else go_bindParam opts),
       go_searchPath = default_value (go_searchPath opts) (go_searchPath d),
       go_onDuplicate = default_value (go_onDuplicate opts) (go_onDuplicate d),
       go_ignoreDuplicates = default_value (go_ignoreDuplicates opts) (go_ignoreDuplicates d),
       go_dialect = default_value (go_dialect opts) (go_dialect d),
       go_limit = default_value (go_limit opts) (go_limit d),
       go_omitNull = default_value (go_omitNull opts) (go_omitNull d) \<rparr>"

fun join_with :: "string \<Rightarrow> string list \<Rightarrow> string" where
  "join_with sep [] = []"
| "join_with sep [x] = x"
| "join_with sep (x # y # ys) = x @ sep @ join_with sep (y # ys)"

text \<open>
  \<open>modelAttributeMap\<close>: every attribute under its key and, when it has a truthy
  \<open>field\<close>, under that name too; a later write replaces an earlier one.
\<close>

definition add_model_attribute ::
  "(string \<times> raw_attribute) list \<Rightarrow> string \<times> raw_attribute \<Rightarrow> (string \<times> raw_attribute) list" where
  "add_model_attribute acc ka =
     (let acc1 = assoc_set (fst ka) (snd ka) acc
      in (case attr_field (snd ka) of
            None \<Rightarrow> acc1
          | Some f \<Rightarrow> if f \<noteq> [] then assoc_set f (snd ka) acc1 else acc1))"

definition modelAttributeMap :: "(string \<times> raw_attribute) list option \<Rightarrow> (string \<times> raw_attribute) list" where
  "modelAttributeMap attrs = (case attrs of None \<Rightarrow> [] | Some as \<Rightarrow> foldl add_model_attribute [] as)"

subsection \<open>insertQuery\<close>

definition insert_opts :: "gen_options \<Rightarrow> escape_opts" where
  "insert_opts opts =
     \<lparr> eo_context = ''INSERT'',
       eo_datewithtz = Some (go_dialect opts \<noteq> JStr ''db2'') \<rparr>"

text \<open>
  One round of the loop over \<open>valueHash\<close>; the state is \<open>fields\<close>, \<open>values\<close> and
  \<open>bind\<close> (\<open>flds\<close>, \<open>vals\<close>, \<open>bind\<close>). \<open>opts\<close> is the option bag when the loop runs and \<open>bp\<close> the \<open>bindParam\<close> chosen
  at the start. (\<open>identityWrapperRequired\<close> is written but never read.)
\<close>

definition insert_step ::
  "generator \<Rightarrow> gen_options \<Rightarrow> bind_param \<Rightarrow> (string \<times> raw_attribute) list \<Rightarrow>
   string list \<times> string list \<times> js_value list \<Rightarrow> string \<times> js_value \<Rightarrow>
   string list \<times> string list \<times> js_value list" where
  "insert_step g opts bp attrMap st kv =
     (case st of (flds, vals, bind) \<Rightarrow>
        (let key = fst kv; value = snd kv;
             fields1 = flds @ [quoteIdentifier (g_base g) key];
             attr = map_of attrMap key
         in if (case attr of None \<Rightarrow> False | Some a \<Rightarrow> attr_autoIncrement a) \<and> \<not> truthy value
            then (if \<not> sup_autoIncrement_defaultValue (g_supports g)
                  then (butlast fields1, vals, bind)
                  else if sup_DEFAULT (g_supports g)
                  then (fields1, vals @ [''DEFAULT''], bind)
                  else (fields1, vals @ [escape (g_base g) JNull None None], bind))
            else (if isSequelizeMethod (g_base g) value \<or> go_bindParam opts = BPFalse
                  then (fields1, vals @ [escape (g_base g) value attr (Some (insert_opts opts))], bind)
                  else (case format (g_base g) value attr (insert_opts opts) bp bind of
                          (txt, bind1) \<Rightarrow> (fields1, vals @ [txt], bind1)))))"

definition on_duplicate :: "generator \<Rightarrow> gen_options \<Rightarrow> string" where
  "on_duplicate g opts =
     (if sup_on_duplicate_key (g_supports g) \<and> truthy (go_onDuplicate opts)
      then '' ON DUPLICATE KEY '' @ to_key (go_onDuplicate opts)
      else [])"

text \<open>
  The option bag after \<open>_.defaults\<close> and after the search-path test, which switches
  binding off.
\<close>

definition insert_options :: "generator \<Rightarrow> gen_options \<Rightarrow> gen_options" where
  "insert_options g options =
     (let opts0 = defaults options (g_options g)
      in if g_prependSearchPath g \<or> truthy (go_searchPath opts0)
         then opts0\<lparr>go_bindParam := BPFalse\<rparr> else opts0)"

text \<open>The loop over the own keys of \<open>valueHash\<close> after the null values are removed.\<close>

definition insert_loop ::
  "generator \<Rightarrow> (string \<times> js_value) list \<Rightarrow> (string \<times> raw_attribute) list option \<Rightarrow>
   gen_options \<Rightarrow> string list \<times> string list \<times> js_value list" where
  "insert_loop g valueHash modelAttributes options =
     foldl (insert_step g (insert_options g options)
              (go_bindParam (defaults options (g_options g)))
              (modelAttributeMap modelAttributes))
       ([], [], [])
       (removeNullValuesFromHash (g_base g) valueHash (go_omitNull (g_options g)) None)"

text \<open>
  \<open>insertQuery\<close> returns the statement; the generator is returned with it because the
  counter is advanced, on every call, when the dialect supports \<open>VALUES ()\<close>.
\<close>

definition insertQuery ::
  "generator \<Rightarrow> string \<Rightarrow> (string \<times> js_value) list \<Rightarrow> (string \<times> raw_attribute) list option \<Rightarrow>
   gen_options \<Rightarrow> sql_result \<times> generator" where
  "insertQuery g table valueHash modelAttributes options =
     (let emptyValues = (if sup_values_empty (g_supports g)
                         then '' VALUES ('' @ string_of_int (autoGenValue g) @ '')'' else []);
          g1 = (if sup_values_empty (g_supports g)
                then g\<lparr>autoGenValue := js_increment (autoGenValue g)\<rparr> else g);
          opts = insert_options g options;
          st = insert_loop g valueHash modelAttributes options;
          attributes = join_with '','' (fst st);
          vals = join_with '','' (fst (snd st));
          bind = snd (snd st);
          ignoreDuplicates = (if truthy (go_ignoreDuplicates opts)
                              then sup_ignoreDuplicates (g_supports g) else []);
          tbl = quoteTable (g_base g) table;
          valueQuery = ''INSERT'' @ ignoreDuplicates @ '' INTO '' @ tbl @ '' ('' @ attributes @ '')'' @
                       '' VALUES ('' @ vals @ '')'' @ on_duplicate g opts;
          emptyQuery = ''INSERT'' @ ignoreDuplicates @ '' INTO '' @ tbl @ emptyValues @
                       on_duplicate g opts;
          query = ''SELECT * FROM FINAL TABLE('' @
                  (if attributes \<noteq> [] then valueQuery else emptyQuery) @ '');''
      in (\<lparr> sql_query = query,
             sql_bind = (if go_bindParam opts \<noteq> BPFalse then Some bind else None) \<rparr>, g1))"

subsection \<open>updateQuery\<close>

definition update_opts :: escape_opts where
  "update_opts = \<lparr> eo_context = ''UPDATE'', eo_datewithtz = None \<rparr>"

definition update_step ::
  "generator \<Rightarrow> gen_options \<Rightarrow> bind_param \<Rightarrow> (string \<times> raw_attribute) list \<Rightarrow>
   string list \<times> js_value list \<Rightarrow> string \<times> js_value \<Rightarrow> string list \<times> js_value list" where
  "update_step g opts bp attrMap st kv =
     (case st of (vals, bind) \<Rightarrow>
        (let key = fst kv; value = snd kv; attr = map_of attrMap key
         in if isSequelizeMethod (g_base g) value \<or> go_bindParam opts = BPFalse
            then (vals @ [quoteIdentifier (g_base g) key @ ''='' @
                            escape (g_base g) value attr (Some update_opts)], bind)
            else (case format (g_base g) value attr update_opts bp bind of
                    (txt, bind1) \<Rightarrow> (vals @ [quoteIdentifier (g_base g) key @ ''='' @ txt], bind1))))"

text \<open>
  The limited path: the \<open>SET\<close> list built by the loop over \<open>attrValueHash\<close>, then the
  \<open>WHERE\<close> text, which goes on binding where the loop stopped. \<open>opts\<close> is the option bag
  after \<open>_.defaults\<close>; \<open>options.bindParam || this.bindParam(bind)\<close> keeps a bind function
  the caller gave and takes the generator's own otherwise.
\<close>

definition update_bindParam :: "gen_options \<Rightarrow> bind_param" where
  "update_bindParam opts = (if go_bindParam opts = BPCustom then BPCustom else BPUndefined)"

definition update_set ::
  "generator \<Rightarrow> gen_options \<Rightarrow> (string \<times> js_value) list \<Rightarrow>
   (string \<times> raw_attribute) list option \<Rightarrow> string list \<times> js_value list" where
  "update_set g opts attrValueHash attributes =
     foldl (update_step g opts (update_bindParam opts) (modelAttributeMap attributes)) ([], [])
       (removeNullValuesFromHash (g_base g) attrValueHash (go_omitNull opts) (Some opts))"

definition update_where ::
  "generator \<Rightarrow> gen_options \<Rightarrow> (string \<times> js_value) list \<Rightarrow>
   (string \<times> raw_attribute) list option \<Rightarrow> js_value \<Rightarrow> string \<times> js_value list" where
  "update_where g opts attrValueHash attributes wh =
     whereQuery (g_base g) wh opts (update_bindParam opts)
       (snd (update_set g opts attrValueHash attributes))"

definition updateQuery ::
  "generator \<Rightarrow> string \<Rightarrow> (string \<times> js_value) list \<Rightarrow> js_value \<Rightarrow> gen_options \<Rightarrow>
   (string \<times> raw_attribute) list option \<Rightarrow> sql_result" where
  "updateQuery g tableName attrValueHash wh options attributes =
     (let sql = super_updateQuery (g_base g) tableName attrValueHash wh options attributes;
          opts = defaults options (g_options g)
      in if \<not> truthy (go_limit opts)
         then sql\<lparr>sql_query := ''SELECT * FROM FINAL TABLE ('' @ sql_query sql @ '')''\<rparr>
         else (let vals = fst (update_set g opts attrValueHash attributes);
                   w = update_where g opts attrValueHash attributes wh;
                   query = ''UPDATE (SELECT * FROM '' @ quoteTable (g_base g) tableName @ '' '' @
                           fst w @ '' FETCH NEXT '' @ escape (g_base g) (go_limit opts) None None @
                           '' ROWS ONLY) SET '' @ join_with '','' vals
               in \<lparr> sql_query = ''SELECT * FROM FINAL TABLE ('' @ query @ '')'',
                     sql_bind = Some (snd w) \<rparr>))"

subsection \<open>upsertQuery\<close>

text \<open>\<open>model.rawAttributes[key].field || key\<close>.\<close>

definition attr_column :: "string \<times> raw_attribute \<Rightarrow> string" where
  "attr_column ka =
     (case attr_field (snd ka) of
        None \<Rightarrow> fst ka
      | Some f \<Rightarrow> if f \<noteq> [] then f else fst ka)"

definition primaryKeysAttrs :: "db_model \<Rightarrow> string list" where
  "primaryKeysAttrs m = map attr_column (filter (\<lambda>ka. attr_primaryKey (snd ka)) (rawAttributes m))"

definition identityAttrs :: "db_model \<Rightarrow> string list" where
  "identityAttrs m = map attr_column (filter (\<lambda>ka. attr_autoIncrement (snd ka)) (rawAttributes m))"

definition declaredUniqueAttrs :: "db_model \<Rightarrow> string list" where
  "declaredUniqueAttrs m = map attr_column (filter (\<lambda>ka. attr_unique (snd ka)) (rawAttributes m))"

text \<open>\<open>typeof field === 'string' ? field : field.name || field.attribute\<close>.\<close>

fun index_field_name :: "index_field \<Rightarrow> string" where
  "index_field_name (FieldName s) = s"
| "index_field_name (FieldObj nm attribute) =
     (case nm of None \<Rightarrow> attribute | Some n \<Rightarrow> if n \<noteq> [] then n else attribute)"

definition add_index_field :: "db_model \<Rightarrow> string list \<Rightarrow> index_field \<Rightarrow> string list" where
  "add_index_field m uniq f =
     (let fieldName = index_field_name f
      in if fieldName \<notin> set uniq \<and> map_of (rawAttributes m) fieldName \<noteq> None
         then uniq @ [fieldName] else uniq)"

definition add_index :: "db_model \<Rightarrow> string list \<Rightarrow> model_index \<Rightarrow> string list" where
  "add_index m uniq ix =
     (case idx_fields ix of
        None \<Rightarrow> uniq
      | Some fs \<Rightarrow> if idx_unique ix then foldl (add_index_field m) uniq fs else uniq)"

definition uniqueAttrs :: "db_model \<Rightarrow> string list" where
  "uniqueAttrs m = foldl (add_index m) (declaredUniqueAttrs m) (indexes m)"

text \<open>The filter on \<open>where[Op.or]\<close>: a clause stays when none of its values is falsy.\<close>

definition valid_clause :: "(string \<times> js_value) list \<Rightarrow> bool" where
  "valid_clause clause = list_all (\<lambda>kv. truthy (snd kv)) clause"

text \<open>\<open>primaryKeysAttrs.indexOf(Object.keys(clause)[0]) !== -1\<close>.\<close>

definition first_key_primary :: "string list \<Rightarrow> (string \<times> js_value) list \<Rightarrow> bool" where
  "first_key_primary pk clause = (case clause of [] \<Rightarrow> False | kv # rest \<Rightarrow> fst kv \<in> set pk)"

definition getJoinSnippet :: "base_layer \<Rightarrow> string \<Rightarrow> string \<Rightarrow> string list \<Rightarrow> string list" where
  "getJoinSnippet b targetTableAlias sourceTableAlias array =
     map (\<lambda>key. targetTableAlias @ ''.'' @ quoteIdentifier b key @ '' = '' @
                sourceTableAlias @ ''.'' @ quoteIdentifier b key) array"

definition joinCondition ::
  "base_layer \<Rightarrow> string \<Rightarrow> string \<Rightarrow> db_model \<Rightarrow> (string \<times> js_value) list list \<Rightarrow> string" where
  "joinCondition b target source m clauses =
     (let found = (if list_ex (first_key_primary (primaryKeysAttrs m)) clauses
                   then Some (join_with '' AND '' (getJoinSnippet b target source (primaryKeysAttrs m)))
                   else None)
      in (case found of
            Some j \<Rightarrow> if j \<noteq> [] then j
                      else join_with '' AND '' (getJoinSnippet b target source (uniqueAttrs m))
          | None \<Rightarrow> join_with '' AND '' (getJoinSnippet b target source (uniqueAttrs m))))"

definition upsert_text ::
  "base_layer \<Rightarrow> string \<Rightarrow> (string \<times> js_value) list \<Rightarrow> (string \<times> js_value) list \<Rightarrow>
   db_model \<Rightarrow> string \<Rightarrow> string" where
  "upsert_text b tableName insertValues updateValues m joinCond =
     (let targetTableAlias = quoteTable b (tableName @ ''_target'');
          sourceTableAlias = quoteTable b (tableName @ ''_source'');
          tableNameQuoted = quoteTable b tableName;
          insertKeysQuoted = join_with '', '' (map (\<lambda>kv. quoteIdentifier b (fst kv)) insertValues);
          insertValuesEscaped = join_with '', '' (map (\<lambda>kv. escape b (snd kv) None None) insertValues);
          sourceTableQuery = ''VALUES('' @ insertValuesEscaped @ '')'';
          updateSnippet = join_with '', ''
            (map (\<lambda>kv. targetTableAlias @ ''.'' @ quoteIdentifier b (fst kv) @ '' = '' @
                        escape b (snd kv) None None)
               (filter (\<lambda>kv. fst kv \<notin> set (identityAttrs m)) updateValues));
          insertSnippet = ''('' @ insertKeysQuoted @ '') VALUES('' @ insertValuesEscaped @ '')''
      in ''MERGE INTO '' @ tableNameQuoted @ '' AS '' @ targetTableAlias @ '' USING ('' @
         sourceTableQuery @ '') AS '' @ sourceTableAlias @ ''('' @ insertKeysQuoted @ '') ON '' @
         joinCond @ '' WHEN MATCHED THEN UPDATE SET '' @ updateSnippet @
         '' WHEN NOT MATCHED THEN INSERT '' @ insertSnippet @ '';'')"

text \<open>
  \<open>upsertQuery\<close>; \<open>where_or\<close> is \<open>where[Op.or]\<close>. (\<open>needIdentityInsertWrapper\<close> is written
  but never read.)
\<close>

definition upsertQuery ::
  "base_layer \<Rightarrow> string \<Rightarrow> (string \<times> js_value) list \<Rightarrow> (string \<times> js_value) list \<Rightarrow>
   (string \<times> js_value) list list \<Rightarrow> db_model \<Rightarrow> js_exn + string" where
  "upsertQuery b tableName insertValues updateValues where_or m =
     (let clauses = filter valid_clause where_or
      in if clauses = []
         then Inl (Error ''Primary Key or Unique key should be passed to upsert query'')
         else Inr (upsert_text b tableName insertValues updateValues m
                     (joinCondition b (quoteTable b (tableName @ ''_target''))
                        (quoteTable b (tableName @ ''_source'')) m clauses)))"

section \<open>Notions used to state the properties\<close>

text \<open>
  The candidates \<open>handleInsertQuery\<close> reads for the generated id, in the order it tries
  them: the first row's \<open>id\<close>, the metadata's \<open>id\<close>, the first row's value under the
  auto-increment attribute and, when the attribute has an alias, the first row's value
  under the alias.
\<close>

definition id_candidates :: "db_model \<Rightarrow> js_value \<Rightarrow> js_value \<Rightarrow> js_value list" where
  "id_candidates m results metaData =
     (let row = js_prop results ''0''; alias = autoIncrementAttributeAlias m
      in [js_prop row getInsertIdField,
          js_prop metaData getInsertIdField,
          js_prop row (attr_key (autoIncrementAttribute m))] @
         (if truthy alias then [js_prop row (to_key alias)] else []))"

text \<open>
  The benign cases as the specification lists them, each on its own, and as the
  execute callback decides them: the test for \<open>SQL0911N\<close> comes before the test for
  \<open>SQL0605W\<close> and is final.
\<close>

definition listed_benign :: "string \<Rightarrow> string \<Rightarrow> bool" where
  "listed_benign this_sql msg =
     ((contains msg ''SQL0204N'' \<and> starts_with this_sql ''DROP '') \<or>
      contains msg ''SQL0443N'' \<or>
      contains msg ''SQL0601N'' \<or>
      (contains msg ''SQL0911N'' \<and> contains msg reason_code_2) \<or>
      contains msg ''SQL0605W'')"

definition decided_benign :: "string \<Rightarrow> string \<Rightarrow> bool" where
  "decided_benign this_sql msg =
     ((contains msg ''SQL0204N'' \<and> starts_with this_sql ''DROP '') \<or>
      contains msg ''SQL0443N'' \<or>
      contains msg ''SQL0601N'' \<or>
      (contains msg ''SQL0911N'' \<and> contains msg reason_code_2) \<or>
      (contains msg ''SQL0605W'' \<and> \<not> contains msg ''SQL0911N''))"

definition message_text :: "raw_error \<Rightarrow> string" where
  "message_text e = (case err_message e of None \<Rightarrow> [] | Some m \<Rightarrow> m)"








text \<open>
  The options of an update request: what the caller gave, with every property that is
  \<open>undefined\<close> taken from the generator's options. The row limit is the \<open>limit\<close> among
  them.
\<close>

definition request_options :: "generator \<Rightarrow> gen_options \<Rightarrow> gen_options" where
  "request_options g options =
     \<lparr> go_bindParam = (case go_bindParam options of
                         BPUndefined \<Rightarrow> go_bindParam (g_options g)
                       | BPFalse \<Rightarrow> BPFalse
                       | BPCustom \<Rightarrow> BPCustom),
       go_searchPath = (case go_searchPath options of
                          JUndefined \<Rightarrow> go_searchPath (g_options g) | v \<Rightarrow> v),
       go_onDuplicate = (case go_onDuplicate options of
                           JUndefined \<Rightarrow> go_onDuplicate (g_options g) | v \<Rightarrow> v),
       go_ignoreDuplicates = (case go_ignoreDuplicates options of
                                JUndefined \<Rightarrow> go_ignoreDuplicates (g_options g) | v \<Rightarrow> v),
       go_dialect = (case go_dialect options of
                       JUndefined \<Rightarrow> go_dialect (g_options g) | v \<Rightarrow> v),
       go_limit = (case go_limit options of
                     JUndefined \<Rightarrow> go_limit (g_options g) | v \<Rightarrow> v),
       go_omitNull = (case go_omitNull options of
                        JUndefined \<Rightarrow> go_omitNull (g_options g) | v \<Rightarrow> v) \<rparr>"

definition row_limit :: "generator \<Rightarrow> gen_options \<Rightarrow> js_value" where
  "row_limit g options =
     (case go_limit options of JUndefined \<Rightarrow> go_limit (g_options g) | v \<Rightarrow> v)"

text \<open>
  The attribute that goes with a key of the value hash: the last of the given
  attributes that is declared under the key or stored in a column of that name.
\<close>

fun attribute_named :: "(string \<times> raw_attribute) list \<Rightarrow> string \<Rightarrow> raw_attribute option" where
  "attribute_named [] k = None"
| "attribute_named ((key, a) # rest) k =
     (case attribute_named rest k of
        Some b \<Rightarrow> Some b
      | None \<Rightarrow> if key = k \<or> (k \<noteq> [] \<and> attr_field a = Some k) then Some a else None)"

text \<open>
  The assignments of the \<open>SET\<close> list, one per entry of the value hash and in its order,
  with the values bound so far. A value is written into the text by \<open>escape\<close> when it
  is a \<open>SequelizeMethod\<close> or binding is off (\<open>literal\<close>); otherwise \<open>format\<close> writes a
  placeholder and binds the value.
\<close>

fun set_assignments ::
  "base_layer \<Rightarrow> bool \<Rightarrow> bind_param \<Rightarrow> (string \<times> raw_attribute) list \<Rightarrow> js_value list \<Rightarrow>
   (string \<times> js_value) list \<Rightarrow> string list \<times> js_value list" where
  "set_assignments b literal bp attrs bind [] = ([], bind)"
| "set_assignments b literal bp attrs bind ((key, v) # rest) =
     (if isSequelizeMethod b v \<or> literal
      then (case set_assignments b literal bp attrs bind rest of
              (texts, bound) \<Rightarrow>
                ((quoteIdentifier b key @ ''='' @
                  escape b v (attribute_named attrs key)
                    (Some \<lparr> eo_context = ''UPDATE'', eo_datewithtz = None \<rparr>)) # texts, bound))
      else (case format b v (attribute_named attrs key)
                   \<lparr> eo_context = ''UPDATE'', eo_datewithtz = None \<rparr> bp bind of
              (placeholder, bind1) \<Rightarrow>
                (case set_assignments b literal bp attrs bind1 rest of
                   (texts, bound) \<Rightarrow> ((quoteIdentifier b key @ ''='' @ placeholder) # texts, bound))))"

text \<open>
  The statement \<open>insertQuery\<close> builds when no column is left, for the counter value \<open>n\<close>:
  a \<open>VALUES\<close> clause with the one synthetic value.
\<close>

definition synthetic_insert :: "generator \<Rightarrow> string \<Rightarrow> gen_options \<Rightarrow> int \<Rightarrow> string" where
  "synthetic_insert g table options n =
     ''SELECT * FROM FINAL TABLE(INSERT'' @
     (if truthy (go_ignoreDuplicates (insert_options g options))
      then sup_ignoreDuplicates (g_supports g) else []) @
     '' INTO '' @ quoteTable (g_base g) table @
     '' VALUES ('' @ string_of_int n @ '')'' @
     on_duplicate g (insert_options g options) @ '');''"

subsection \<open>Concrete inputs\<close>

text \<open>A model whose auto-increment attribute \<open>id\<close> is stored in the column \<open>id\<close>.\<close>

definition id_model :: db_model where
  "id_model =
     \<lparr> rawAttributes = [(''id'', \<lparr> attr_field = Some ''id'', attr_primaryKey = True,
                                   attr_unique = False, attr_autoIncrement = True \<rparr>)],
       indexes = [],
       uniqueKeys = [],
       autoIncrementAttribute = Some ''id'' \<rparr>"

text \<open>
  A user model: primary key \<open>id\<close>, unique attributes \<open>email\<close> and \<open>name\<close>, each with
  its unique key.
\<close>

definition user_model :: db_model where
  "user_model =
     \<lparr> rawAttributes =
         [(''id'', \<lparr> attr_field = Some ''id'', attr_primaryKey = True,
                     attr_unique = False, attr_autoIncrement = True \<rparr>),
          (''name'', \<lparr> attr_field = Some ''name'', attr_primaryKey = False,
                       attr_unique = True, attr_autoIncrement = False \<rparr>),
          (''email'', \<lparr> attr_field = Some ''email'', attr_primaryKey = False,
                        attr_unique = True, attr_autoIncrement = False \<rparr>)],
       indexes = [],
       uniqueKeys =
         [(''UK_NAME'', JObj [(''column'', JStr ''name'')]),
          (''UK_EMAIL'', JObj [(''column'', JStr ''email'')])],
       autoIncrementAttribute = Some ''id'' \<rparr>"

text \<open>
  A Query object on that model: \<open>formatResults\<close> hands back its data, the per-cell
  conversion changes nothing, and the base class's generated message is
  \<open>field + ' must be unique'\<close>.
\<close>

definition user_query :: "query_options \<Rightarrow> query_ctx" where
  "user_query opts =
     \<lparr> q_model = Some user_model,
       q_options = opts,
       q_getUniqueConstraintErrorMessage = (\<lambda>f. f @ '' must be unique''),
       q_isSelectQuery = False,
       q_formatResults = (\<lambda>a. Inr (fr_data a)),
       q_coerce = (\<lambda>metadata rows. Inr rows) \<rparr>"

definition no_options :: query_options where
  "no_options = \<lparr> opt_where = JUndefined, opt_fields = JUndefined, opt_instance = JUndefined,
                  opt_transaction = JUndefined \<rparr>"

text \<open>The catalog of that table: index 2 is \<open>UK_NAME\<close>, index 12 is \<open>UK_EMAIL\<close>.\<close>

definition user_catalog :: "string \<Rightarrow> js_value" where
  "user_catalog q =
     (if q = index_query (''2'', ''S'', ''T'') then js_array [JObj [(''INDNAME'', JStr ''UK_NAME'')]]
      else if q = index_query (''12'', ''S'', ''T'') then js_array [JObj [(''INDNAME'', JStr ''UK_EMAIL'')]]
      else js_array [])"

text \<open>A catalog that answers every query with the index \<open>UK_EMAIL\<close>.\<close>

definition email_catalog :: "string \<Rightarrow> js_value" where
  "email_catalog q = js_array [JObj [(''INDNAME'', JStr ''UK_EMAIL'')]]"

definition unique_violation_message :: "string \<Rightarrow> string" where
  "unique_violation_message iid = unique_head @ iid @ unique_mid @ ''S.T'' @ unique_tail @ ''.''"

definition table_not_found_message :: string where
  "table_not_found_message = undef_head @ ''S.T'' @ undef_tail @ ''.  SQLSTATE=42704''"

text \<open>A message that carries the deadlock code without reason code 2, and the warning code.\<close>

definition deadlock_with_warning :: string where
  "deadlock_with_warning = ''SQL0911N  Reason code 68.  SQL0605W''"

text \<open>A connection on which everything succeeds but \<open>execute\<close>, which hands over \<open>err\<close>.\<close>

definition failing_connection :: "raw_error \<Rightarrow> connection" where
  "failing_connection err =
     \<lparr> on_beginTransaction = None,
       on_commitTransaction = (\<lambda>name. None),
       on_rollbackTransaction = None,
       on_prepare = (\<lambda>q. (None, Some \<lparr> st_execute = (\<lambda>params. (Some err, NotAnObject)) \<rparr>)),
       conn_querySync = user_catalog \<rparr>"

definition driver_error :: "string \<Rightarrow> raw_error" where
  "driver_error msg = \<lparr> err_message = Some msg, err_sql = None \<rparr>"





text \<open>
  A base layer that quotes with double quotes, writes a value as its text, binds a
  value under the next numbered placeholder, and renders a \<open>where\<close> object by its first
  entry.
\<close>

definition demo_base :: base_layer where
  "demo_base =
     \<lparr> quoteTable = (\<lambda>t. [CHR 0x22] @ t @ [CHR 0x22]),
       quoteIdentifier = (\<lambda>i. [CHR 0x22] @ i @ [CHR 0x22]),
       escape = (\<lambda>v a eo. to_key v),
       format = (\<lambda>v a eo bp bind. (''$'' @ string_of_nat (Suc (length bind)), bind @ [v])),
       whereQuery = (\<lambda>w opts bp bind.
          (case w of
             JObj ((k, v) # rest) \<Rightarrow>
               (''WHERE '' @ k @ '' = $'' @ string_of_nat (Suc (length bind)), bind @ [v])
           | other \<Rightarrow> ([], bind))),
       super_updateQuery = (\<lambda>t h w opts a.
          \<lparr> sql_query = ''UPDATE '' @ t @ '' SET '' @
                          join_with '','' (map (\<lambda>kv. fst kv @ ''='' @ to_key (snd kv)) h),
            sql_bind = Some [] \<rparr>),
       isSequelizeMethod = (\<lambda>v. False),
       removeNullValuesFromHash = (\<lambda>h omitNull opts. h) \<rparr>"

definition no_gen_options :: gen_options where
  "no_gen_options =
     \<lparr> go_bindParam = BPUndefined, go_searchPath = JUndefined, go_onDuplicate = JUndefined,
       go_ignoreDuplicates = JUndefined, go_dialect = JUndefined, go_limit = JUndefined,
       go_omitNull = JUndefined \<rparr>"

definition demo_generator :: generator where
  "demo_generator =
     \<lparr> autoGenValue = 1,
       g_options = no_gen_options,
       g_supports = \<lparr> sup_values_empty = True, sup_on_duplicate_key = False,
                      sup_autoIncrement_defaultValue = False, sup_DEFAULT = True,
                      sup_ignoreDuplicates = [] \<rparr>,
       g_prependSearchPath = False,
       g_base = demo_base \<rparr>"

definition index_row_of :: "string \<Rightarrow> index_row" where
  "index_row_of colnames =
     \<lparr> row_name = ''IX1'', row_tableName = ''T'', row_keyType = ''U'',
       row_COLNAMES = colnames, row_type = ''REG'' \<rparr>"

definition named_index_row :: "string \<Rightarrow> string \<Rightarrow> index_row" where
  "named_index_row n colnames =
     \<lparr> row_name = n, row_tableName = ''T'', row_keyType = ''D'',
       row_COLNAMES = colnames, row_type = ''REG'' \<rparr>"

section \<open>Properties of query.js\<close>

subsection \<open>Auxiliary facts\<close>

lemma falsy_prop: "\<not> truthy v \<Longrightarrow> js_prop v k = JUndefined"
  by (cases v) auto

lemma js_array_Nil: "js_array [] = JObj []"
  by (simp add: js_array_def)

lemma js_array_single: "js_array [v] = JObj [(''0'', v)]"
  by (simp add: js_array_def digit_char_def string_of_nat.simps)


lemma benign_decided: "benign this_sql msg = decided_benign this_sql msg"
  by (auto simp: benign_def decided_benign_def)

subsection \<open>Error translation\<close>

text \<open>
  C1. The pattern's first group is \<open>(\d)+\<close>, so of an index id with more than one
  digit only the last digit is read: the catalog is asked for another index than the
  one the message names. Here the violated index is number 12 (\<open>UK_EMAIL\<close>, column
  \<open>email\<close>); the query is made for index 2 (\<open>UK_NAME\<close>), and the violation is
  attributed to the column \<open>name\<close> and the instance's value for it.
\<close>

theorem formatError_two_digit_index_id:
  "user_catalog (index_query (''12'', ''S'', ''T'')) = js_array [JObj [(''INDNAME'', JStr ''UK_EMAIL'')]] \<and>
   formatError
     (user_query (no_options\<lparr>opt_instance :=
        JObj [(''dataValues'', JObj [(''name'', JStr ''bob''), (''email'', JStr ''x@y.com'')])]\<rparr>))
     (Some (driver_error (unique_violation_message ''12''))) (Some user_catalog) JUndefined
   = Inr (UniqueConstraintError
       (JStr (unique_violation_message ''12''))
       [\<lparr> vi_message = ''name must be unique'', vi_type = ''unique violation'', vi_path = ''name'',
           vi_value = JStr ''bob'',
           vi_instance = JObj [(''dataValues'', JObj [(''name'', JStr ''bob''), (''email'', JStr ''x@y.com'')])],
           vi_validatorKey = ''not_unique'' \<rparr>]
       (driver_error (unique_violation_message ''12''))
       [(''name'', JStr ''bob'')])"
  by code_simp

text \<open>
  What the translation does with the index the catalog answers: once a unique key is
  resolved, the error is a UniqueConstraintError whose message is the key's \<open>msg\<close>
  when that is truthy and the driver's message otherwise, with one violation item per
  entry of \<open>fields\<close>; \<open>fields\<close> holds the key's column with the where-clause value
  when that is not \<open>undefined\<close>, else the instance's value when that is truthy, else
  the first positional parameter when parameters were passed, and is empty otherwise.
\<close>

theorem unique_violation_attribution:
  assumes "err_message e = Some msg"
    and "match_unique msg = Some m"
    and "resolve_index_name conn m = Inr indexName"
    and "resolve_unique_key this indexName (fst m) = uniqueKey"
    and "truthy uniqueKey"
    and "to_key (js_prop uniqueKey ''column'') = col"
  shows "formatError this (Some e) conn parameters =
           Inr (UniqueConstraintError
                  (if truthy (js_prop uniqueKey ''msg'') then js_prop uniqueKey ''msg'' else JStr msg)
                  (map (violation_item this) (attribute_fields (q_options this) parameters uniqueKey))
                  e
                  (attribute_fields (q_options this) parameters uniqueKey))
       \<and> attribute_fields (q_options this) parameters uniqueKey =
           (if truthy (opt_where (q_options this)) \<and> js_prop (opt_where (q_options this)) col \<noteq> JUndefined
            then [(col, js_prop (opt_where (q_options this)) col)]
            else if truthy (js_prop (js_prop (opt_instance (q_options this)) ''dataValues'') col)
            then [(col, js_prop (js_prop (opt_instance (q_options this)) ''dataValues'') col)]
            else if truthy parameters
            then [(col, js_prop parameters ''0'')]
            else [])"
proof -
  have g: "formatError_default (Some e) = Inr e"
    by (simp add: formatError_default_def js_or_def error_value_def)
  have f: "attribute_fields (q_options this) parameters uniqueKey =
           (if truthy (opt_where (q_options this)) \<and> js_prop (opt_where (q_options this)) col \<noteq> JUndefined
            then [(col, js_prop (opt_where (q_options this)) col)]
            else if truthy (js_prop (js_prop (opt_instance (q_options this)) ''dataValues'') col)
            then [(col, js_prop (js_prop (opt_instance (q_options this)) ''dataValues'') col)]
            else if truthy parameters
            then [(col, js_prop parameters ''0'')]
            else [])"
    using assms(5,6)
    by (auto simp: attribute_fields_def Let_def falsy_prop)
  show ?thesis
    using assms g
    by (simp add: formatError_def unique_error_def unique_message_def Let_def f)
qed

text \<open>
  The specification's example: index id 2 of table \<open>S.T\<close>, a unique key on the column
  \<open>email\<close> and a where-clause with \<open>email: "x@y.com"\<close>.
\<close>

theorem unique_violation_attribution_example:
  "formatError (user_query (no_options\<lparr>opt_where := JObj [(''email'', JStr ''x@y.com'')]\<rparr>))
     (Some (driver_error (unique_violation_message ''2''))) (Some email_catalog) JUndefined
   = Inr (UniqueConstraintError
       (JStr (unique_violation_message ''2''))
       [\<lparr> vi_message = ''email must be unique'', vi_type = ''unique violation'', vi_path = ''email'',
           vi_value = JStr ''x@y.com'', vi_instance = JUndefined, vi_validatorKey = ''not_unique'' \<rparr>]
       (driver_error (unique_violation_message ''2''))
       [(''email'', JStr ''x@y.com'')])"
  by code_simp

text \<open>
  C10. In \<open>formatError\<close> the guard \<open>!(err || err.message)\<close> is false for every error
  object, so \<open>'No error message found.'\<close> is never substituted and the error goes on
  unchanged; when its \<open>message\<close> is \<open>undefined\<close>, \<open>formatError\<close> throws a TypeError
  instead of returning an error value.
\<close>

theorem formatError_fallback_unreachable:
  "truthy (js_or (error_value e) (js_prop (error_value e) ''message''))
   \<and> formatError_default (Some e) = Inr e
   \<and> (err_message e = None \<longrightarrow> formatError this (Some e) conn parameters = Inl TypeError)"
  by (simp add: formatError_default_def formatError_def js_or_def error_value_def)

theorem formatError_fallback_unreachable_witness:
  "formatError_default (Some \<lparr> err_message = None, err_sql = Some ''DROP TABLE T'' \<rparr>)
     = Inr \<lparr> err_message = None, err_sql = Some ''DROP TABLE T'' \<rparr>
   \<and> formatError (user_query no_options)
       (Some \<lparr> err_message = None, err_sql = Some ''DROP TABLE T'' \<rparr>) None JUndefined
     = Inl TypeError"
  using formatError_fallback_unreachable
    [of "\<lparr> err_message = None, err_sql = Some ''DROP TABLE T'' \<rparr>" "user_query no_options"
        None JUndefined]
  by simp

subsection \<open>Execution\<close>

text \<open>
  C2 (as amended). In the callback of \<open>execute\<close>, a driver error is suppressed and the
  promise resolves with \<open>formatResults([], 0)\<close> exactly when its message contains
  \<open>SQL0204N\<close> and the SQL text starts with \<open>'DROP '\<close>, or contains \<open>SQL0443N\<close>, or
  \<open>SQL0601N\<close>, or \<open>SQL0911N\<close> together with \<open>Reason code "2"\<close>, or \<open>SQL0605W\<close> and not
  \<open>SQL0911N\<close>. Every other driver error gets the statement text attached and is
  rejected through \<open>formatError\<close>. (The promise stays unsettled where \<open>formatResults\<close> or
  \<open>formatError\<close> itself throws.)
\<close>

theorem execute_error_suppression:
  "first_settlement (execute_callback this conn sql this_sql parameters (Some e) result) =
     (if decided_benign this_sql (message_text e)
      then (case q_formatResults this (empty_args this_sql) of
              Inr v \<Rightarrow> Some (Resolve v) | Inl x \<Rightarrow> None)
      else (case formatError this (Some (e\<lparr>err_sql := Some sql\<rparr>)) (Some (conn_querySync conn)) parameters of
              Inr se \<Rightarrow> Some (Reject se) | Inl x \<Rightarrow> None))"
proof (cases "err_message e")
  case None
  then show ?thesis
    by (simp add: execute_callback_def was_suppressed_def suppress_def message_text_def
        decided_benign_def and_then_def reject_formatted_def split: sum.splits)
next
  case (Some msg)
  show ?thesis
  proof (cases "decided_benign this_sql msg")
    case True
    then have "msg \<noteq> []" by (auto simp: decided_benign_def)
    with True Some show ?thesis
      by (auto simp: execute_callback_def was_suppressed_def suppress_def message_text_def
          benign_decided and_then_def resolve_formatted_def split: sum.splits)
  next
    case False
    with Some show ?thesis
      by (auto simp: execute_callback_def was_suppressed_def suppress_def message_text_def
          benign_decided and_then_def reject_formatted_def split: sum.splits)
  qed
qed

theorem execute_error_suppression_witness:
  "first_settlement
     (execute_callback (user_query no_options)
        (failing_connection (driver_error table_not_found_message))
        ''DROP TABLE T;'' ''DROP TABLE T;'' JUndefined
        (Some (driver_error table_not_found_message)) NotAnObject)
     = Some (Resolve (js_array []))"
proof -
  have b: "decided_benign ''DROP TABLE T;''
             (message_text (driver_error table_not_found_message))"
    by code_simp
  have f: "q_formatResults (user_query no_options) (empty_args ''DROP TABLE T;'') = Inr (js_array [])"
    by (simp add: user_query_def empty_args_def)
  from execute_error_suppression
         [of "user_query no_options"
             "failing_connection (driver_error table_not_found_message)"
             "''DROP TABLE T;''" "''DROP TABLE T;''" JUndefined
             "driver_error table_not_found_message" NotAnObject]
  show ?thesis by (simp add: b f)
qed

text \<open>
  C2 as stated fails: a message that carries \<open>SQL0605W\<close> is not suppressed when it also
  carries \<open>SQL0911N\<close> without \<open>Reason code "2"\<close>; the run rejects with a database error.
\<close>

theorem warning_after_deadlock_counterexample:
  "listed_benign ''UPDATE T SET X = 1'' deadlock_with_warning \<and>
   first_settlement
     (run (user_query no_options) (failing_connection (driver_error deadlock_with_warning))
        ''UPDATE T SET X = 1'' JUndefined)
     = Some (Reject (DatabaseError
         \<lparr> err_message = Some deadlock_with_warning, err_sql = Some ''UPDATE T SET X = 1'' \<rparr>))"
  by code_simp




subsection \<open>Result normalisation\<close>

text \<open>
  C7. \<open>COLNAMES\<close> is cut with \<open>replace('+', ' +').replace('-', ' -')\<close>, which touch the
  first \<open>+\<close> and the first \<open>-\<close> only. A list with two ascending columns, \<open>+a+b\<close>, comes
  out as the single entry \<open>a+b\<close>, not as one entry per column.
\<close>

theorem handleShowIndexesQuery_two_ascending_columns:
  "handleShowIndexesQuery [index_row_of ''+a+b''] =
     Inr [\<lparr> ix_primary = False,
            ix_fields = [\<lparr> fe_attribute = ''a+b'', fe_order = ASC \<rparr>],
            ix_name = ''IX1'', ix_tableName = ''T'', ix_unique = True, ix_type = ''REG'' \<rparr>]"
  by code_simp

text \<open>
  The specification's own example, one ascending and one descending column, is
  normalised as it says.
\<close>

theorem handleShowIndexesQuery_spec_example:
  "handleShowIndexesQuery [index_row_of ''+b-a''] =
     Inr [\<lparr> ix_primary = False,
            ix_fields = [\<lparr> fe_attribute = ''b'', fe_order = ASC \<rparr>,
                         \<lparr> fe_attribute = ''a'', fe_order = DESC \<rparr>],
            ix_name = ''IX1'', ix_tableName = ''T'', ix_unique = True, ix_type = ''REG'' \<rparr>]"
  by code_simp

text \<open>
  Rows of one index are grouped under the first row of its name; an index whose name
  is an array index is listed before the others; a name that every object inherits
  makes the normalisation throw.
\<close>

theorem handleShowIndexesQuery_grouping_examples:
  "map ix_name (projr (handleShowIndexesQuery
      [named_index_row ''IXB'' ''+b'', named_index_row ''10'' ''+c'',
       named_index_row ''IXB'' ''-a'', named_index_row ''9'' ''+d'']))
     = [''9'', ''10'', ''IXB'']
   \<and> map ix_fields (projr (handleShowIndexesQuery
      [named_index_row ''IXB'' ''+b'', named_index_row ''IXB'' ''-a'']))
     = [[\<lparr> fe_attribute = ''b'', fe_order = ASC \<rparr>, \<lparr> fe_attribute = ''a'', fe_order = DESC \<rparr>]]
   \<and> handleShowIndexesQuery [named_index_row ''constructor'' ''+a''] = Inl TypeError"
  by code_simp

text \<open>
  C8 (as amended). With an instance object bound, \<open>handleInsertQuery\<close> raises nothing
  and assigns to the instance's auto-increment attribute the first truthy candidate in
  the order: first row's \<open>id\<close>, metadata's \<open>id\<close>, first row's value under the
  auto-increment attribute, first row's value under the aliased field name. When no
  candidate is truthy it assigns a falsy value; that value is \<open>null\<close> when the
  attribute has no alias.
\<close>

theorem handleInsertQuery_first_truthy_candidate:
  "handleInsertQuery (JObj ps) m results metaData =
     Inr (JObj (assoc_set (attr_key (autoIncrementAttribute m)) (insert_id m results metaData) ps))
   \<and> (case find truthy (id_candidates m results metaData) of
        Some c \<Rightarrow> insert_id m results metaData = c
      | None \<Rightarrow> \<not> truthy (insert_id m results metaData)
               \<and> (autoIncrementAttributeAlias m = JNull \<longrightarrow> insert_id m results metaData = JNull))"
  by (auto simp: handleInsertQuery_def insert_id_def id_candidates_def js_or_def js_and_def
      Let_def falsy_prop)

theorem handleInsertQuery_first_truthy_candidate_witness:
  "handleInsertQuery (JObj [(''name'', JStr ''bob'')]) id_model
     (js_array [JObj [(''ID'', JNum 7), (''id'', JNum 8)]]) JUndefined
     = Inr (JObj [(''name'', JStr ''bob''), (''id'', JNum 8)])"
  using handleInsertQuery_first_truthy_candidate
    [of "[(''name'', JStr ''bob'')]" id_model "js_array [JObj [(''ID'', JNum 7), (''id'', JNum 8)]]"
        JUndefined]
  by (simp add: id_candidates_def id_model_def js_array_single autoIncrementAttributeAlias_def
      attr_key_def getInsertIdField_def)

text \<open>
  C8 as stated fails: for a model whose attribute has an alias and an empty result
  list, no candidate is found and the instance's attribute is set to \<open>undefined\<close>, not
  to \<open>null\<close>.
\<close>

theorem handleInsertQuery_not_null_counterexample:
  "find truthy (id_candidates id_model (js_array []) JUndefined) = None
   \<and> handleInsertQuery (JObj []) id_model (js_array []) JUndefined = Inr (JObj [(''id'', JUndefined)])
   \<and> handleInsertQuery (JObj []) id_model (js_array []) JUndefined \<noteq> Inr (JObj [(''id'', JNull)])"
  by (simp add: id_candidates_def id_model_def js_array_Nil autoIncrementAttributeAlias_def
      attr_key_def getInsertIdField_def handleInsertQuery_def insert_id_def js_or_def js_and_def)

section \<open>Properties of the query generator\<close>

subsection \<open>Auxiliary facts\<close>

lemma filter_valid_clause_Nil:
  assumes "\<forall>clause \<in> set where_or. \<exists>kv \<in> set clause. snd kv = JNull \<or> snd kv = JUndefined"
  shows "filter valid_clause where_or = []"
proof -
  have "\<not> valid_clause clause" if "clause \<in> set where_or" for clause
  proof -
    from assms that obtain kv where "kv \<in> set clause" "snd kv = JNull \<or> snd kv = JUndefined"
      by blast
    then have "kv \<in> set clause \<and> \<not> truthy (snd kv)" by auto
    then show ?thesis by (auto simp: valid_clause_def list_all_iff)
  qed
  then show ?thesis by (simp add: filter_empty_conv)
qed



lemma upt_10: "[0..<10] = [0, 1, 2, 3, 4, 5, 6, 7, 8, 9 :: nat]"
  by code_simp

lemma digit_cases: "d < 10 \<Longrightarrow> d \<in> set [0, 1, 2, 3, 4, 5, 6, 7, 8, 9 :: nat]"
proof -
  assume "d < 10"
  then have "d \<in> set [0..<10]" by simp
  then show ?thesis by (simp only: upt_10)
qed

lemma char_code_digit: "d < 10 \<Longrightarrow> char_code (digit_char d) = 48 + d"
  using digit_cases[of d] by (auto simp: digit_char_def char_code_def)

lemma digit_char_not_minus: "d < 10 \<Longrightarrow> digit_char d \<noteq> CHR ''-''"
  using digit_cases[of d] by (auto simp: digit_char_def)

lemma digit_char_inj:
  assumes "a < 10" and "b < 10" and "digit_char a = digit_char b"
  shows "a = b"
proof -
  have "48 + a = char_code (digit_char a)"
    using assms(1) by (simp only: char_code_digit)
  also have "\<dots> = char_code (digit_char b)"
    by (simp only: assms(3))
  also have "\<dots> = 48 + b"
    using assms(2) by (simp only: char_code_digit)
  finally show ?thesis by simp
qed

lemma string_of_nat_nonempty: "string_of_nat n \<noteq> []"
  by (subst string_of_nat.simps) simp

lemma string_of_nat_small: "n < 10 \<Longrightarrow> string_of_nat n = [digit_char n]"
  by (subst string_of_nat.simps) simp

lemma string_of_nat_big:
  "\<not> n < 10 \<Longrightarrow> string_of_nat n = string_of_nat (n div 10) @ [digit_char (n mod 10)]"
  by (subst string_of_nat.simps) simp

lemma string_of_nat_inj: "string_of_nat m = string_of_nat n \<Longrightarrow> m = n"
proof (induction m arbitrary: n rule: less_induct)
  case (less m)
  show ?case
  proof (cases "m < 10")
    case m: True
    show ?thesis
    proof (cases "n < 10")
      case True
      with m less.prems show ?thesis
        by (simp add: string_of_nat_small digit_char_inj)
    next
      case False
      with m less.prems string_of_nat_nonempty[of "n div 10"] show ?thesis
        by (simp add: string_of_nat_small string_of_nat_big)
    qed
  next
    case m: False
    show ?thesis
    proof (cases "n < 10")
      case True
      with m less.prems string_of_nat_nonempty[of "m div 10"] show ?thesis
        by (simp add: string_of_nat_small string_of_nat_big)
    next
      case False
      with m less.prems
      have eq: "string_of_nat (m div 10) = string_of_nat (n div 10)"
        and d: "digit_char (m mod 10) = digit_char (n mod 10)"
        by (simp_all add: string_of_nat_big)
      from m have "m div 10 < m" by simp
      from less.IH[OF this eq] have q: "m div 10 = n div 10" .
      from d have r: "m mod 10 = n mod 10" by (simp add: digit_char_inj)
      from q r show ?thesis by (metis div_mult_mod_eq)
    qed
  qed
qed

lemma string_of_nat_no_minus: "string_of_nat n \<noteq> CHR ''-'' # s"
proof (induction n arbitrary: s rule: less_induct)
  case (less n)
  show ?case
  proof (cases "n < 10")
    case True
    then show ?thesis
      by (simp add: string_of_nat_small digit_char_not_minus)
  next
    case False
    then have lt: "n div 10 < n" by simp
    obtain c cs where e: "string_of_nat (n div 10) = c # cs"
      using string_of_nat_nonempty[of "n div 10"] by (cases "string_of_nat (n div 10)") auto
    have c: "c \<noteq> CHR ''-''"
      using less.IH[OF lt, of cs] e by simp
    have "string_of_nat n = c # (cs @ [digit_char (n mod 10)])"
      by (simp only: string_of_nat_big[OF False] e append_Cons)
    with c show ?thesis by simp
  qed
qed

lemma string_of_int_inj:
  assumes "string_of_int i = string_of_int j"
  shows "i = j"
proof (cases "i < 0")
  case i: True
  show ?thesis
  proof (cases "j < 0")
    case True
    with i assms have "string_of_nat (nat (- i)) = string_of_nat (nat (- j))"
      by (simp add: string_of_int_def)
    then have "nat (- i) = nat (- j)" by (rule string_of_nat_inj)
    with i True show ?thesis by simp
  next
    case False
    with i assms have "string_of_nat (nat j) = CHR ''-'' # string_of_nat (nat (- i))"
      by (simp add: string_of_int_def)
    with string_of_nat_no_minus show ?thesis by blast
  qed
next
  case i: False
  show ?thesis
  proof (cases "j < 0")
    case True
    with i assms have "string_of_nat (nat i) = CHR ''-'' # string_of_nat (nat (- j))"
      by (simp add: string_of_int_def)
    with string_of_nat_no_minus show ?thesis by blast
  next
    case False
    with i assms have "string_of_nat (nat i) = string_of_nat (nat j)"
      by (simp add: string_of_int_def)
    then have "nat i = nat j" by (rule string_of_nat_inj)
    with i False show ?thesis by simp
  qed
qed

lemma insert_loop_counter:
  "insert_loop (g\<lparr>autoGenValue := n\<rparr>) valueHash attrs options = insert_loop g valueHash attrs options"
proof -
  have "insert_step (g\<lparr>autoGenValue := n\<rparr>) = insert_step g"
    by (intro ext) (simp add: insert_step_def Let_def split: prod.splits option.splits)
  then show ?thesis by (simp add: insert_loop_def insert_options_def)
qed















lemma map_of_assoc_set: "map_of (assoc_set k v ps) = (map_of ps)(k \<mapsto> v)"
  by (induction ps) (auto simp: fun_eq_iff)

lemma map_of_add_model_attribute:
  "map_of (add_model_attribute acc (key, a)) k =
     (if key = k \<or> (k \<noteq> [] \<and> attr_field a = Some k) then Some a else map_of acc k)"
  by (auto simp: add_model_attribute_def Let_def map_of_assoc_set split: option.splits)

lemma map_of_model_attributes:
  "map_of (foldl add_model_attribute acc as) k =
     (case attribute_named as k of Some b \<Rightarrow> Some b | None \<Rightarrow> map_of acc k)"
proof (induction as arbitrary: acc)
  case Nil
  show ?case by simp
next
  case (Cons ka as)
  obtain key a where ka: "ka = (key, a)" by (cases ka)
  have "map_of (foldl add_model_attribute acc (ka # as)) k =
        (case attribute_named as k of
           Some b \<Rightarrow> Some b
         | None \<Rightarrow> map_of (add_model_attribute acc (key, a)) k)"
    by (simp only: foldl.simps Cons.IH ka)
  then show ?case
    by (simp add: ka map_of_add_model_attribute split: option.splits)
qed

lemma map_of_modelAttributeMap:
  "map_of (modelAttributeMap attributes) k =
     attribute_named (case attributes of None \<Rightarrow> [] | Some as \<Rightarrow> as) k"
  by (simp add: modelAttributeMap_def map_of_model_attributes split: option.splits)

lemma update_loop_eq:
  assumes "\<And>k. map_of attrMap k = attribute_named attrs k"
  shows "foldl (update_step g opts bp attrMap) (vals, bind) kvs =
         (vals @ fst (set_assignments (g_base g) (go_bindParam opts = BPFalse) bp attrs bind kvs),
          snd (set_assignments (g_base g) (go_bindParam opts = BPFalse) bp attrs bind kvs))"
proof (induction kvs arbitrary: vals bind)
  case Nil
  show ?case by simp
next
  case (Cons kv kvs)
  obtain key v where kv: "kv = (key, v)" by (cases kv)
  show ?case
  proof (cases "isSequelizeMethod (g_base g) v \<or> go_bindParam opts = BPFalse")
    case True
    then have s: "update_step g opts bp attrMap (vals, bind) (key, v) =
          (vals @ [quoteIdentifier (g_base g) key @ ''='' @
                   escape (g_base g) v (attribute_named attrs key)
                     (Some \<lparr> eo_context = ''UPDATE'', eo_datewithtz = None \<rparr>)], bind)"
      by (simp add: update_step_def update_opts_def Let_def assms)
    from True show ?thesis
      by (simp only: kv foldl.simps s Cons.IH) (simp split: prod.splits)
  next
    case False
    obtain ph bind1 where f: "format (g_base g) v (attribute_named attrs key)
               \<lparr> eo_context = ''UPDATE'', eo_datewithtz = None \<rparr> bp bind = (ph, bind1)"
      by (cases "format (g_base g) v (attribute_named attrs key)
               \<lparr> eo_context = ''UPDATE'', eo_datewithtz = None \<rparr> bp bind")
    from False have s: "update_step g opts bp attrMap (vals, bind) (key, v) =
          (vals @ [quoteIdentifier (g_base g) key @ ''='' @ ph], bind1)"
      by (simp add: update_step_def update_opts_def Let_def assms f)
    from False show ?thesis
      by (simp only: kv foldl.simps s Cons.IH) (simp add: f split: prod.splits)
  qed
qed

lemma default_value_eq: "default_value v d = (case v of JUndefined \<Rightarrow> d | w \<Rightarrow> w)"
  by (cases v) (simp_all add: default_value_def)

lemma default_bindParam_eq:
  "(if p = BPUndefined then d else p) =
     (case p of BPUndefined \<Rightarrow> d | BPFalse \<Rightarrow> BPFalse | BPCustom \<Rightarrow> BPCustom)"
  by (cases p) simp_all

lemma defaults_eq: "defaults options (g_options g) = request_options g options"
  by (simp only: defaults_def request_options_def default_value_eq default_bindParam_eq)

lemma limit_of_request: "go_limit (request_options g options) = row_limit g options"
  by (simp add: request_options_def row_limit_def)

lemma update_bindParam_eq:
  "update_bindParam opts = (case go_bindParam opts of BPCustom \<Rightarrow> BPCustom | other \<Rightarrow> BPUndefined)"
  by (simp add: update_bindParam_def split: bind_param.splits)

subsection \<open>upsertQuery\<close>

text \<open>
  C3. When every disjunct of \<open>where[Op.or]\<close> has a component whose value is \<open>null\<close> or
  missing (\<open>undefined\<close>), no clause survives the filter and \<open>upsertQuery\<close> throws the
  error \<open>'Primary Key or Unique key should be passed to upsert query'\<close> in place of
  returning a statement.
\<close>

theorem upsertQuery_no_usable_clause:
  assumes "\<forall>clause \<in> set where_or. \<exists>kv \<in> set clause. snd kv = JNull \<or> snd kv = JUndefined"
  shows "filter valid_clause where_or = []
       \<and> upsertQuery b tableName insertValues updateValues where_or m =
           Inl (Error ''Primary Key or Unique key should be passed to upsert query'')"
  using filter_valid_clause_Nil[OF assms] by (simp add: upsertQuery_def)

theorem upsertQuery_no_usable_clause_witness:
  "upsertQuery demo_base ''T'' [(''id'', JNum 1), (''email'', JStr ''x'')] [(''email'', JStr ''x'')]
     [[(''email'', JNull)], [(''id'', JNum 1), (''tenant'', JUndefined)]] user_model
   = Inl (Error ''Primary Key or Unique key should be passed to upsert query'')"
proof -
  have h: "\<forall>clause \<in> set [[(''email'', JNull)], [(''id'', JNum 1), (''tenant'', JUndefined)]].
             \<exists>kv \<in> set clause. snd kv = JNull \<or> snd kv = JUndefined"
    by simp
  from upsertQuery_no_usable_clause[OF h] show ?thesis by simp
qed




subsection \<open>updateQuery\<close>

text \<open>
  C5. A request has a row limit when \<open>options.limit\<close>, after the generator's options
  are filled in, is truthy. Without one, \<open>updateQuery\<close> returns the base layer's
  statement with its text wrapped in \<open>SELECT * FROM FINAL TABLE (...)\<close>. With one, it
  returns an UPDATE of the derived table
  \<open>SELECT * FROM <table> <where> FETCH NEXT <limit> ROWS ONLY\<close>, wrapped the same way:
  the table is the quoted table name, the \<open>WHERE\<close> text is the base layer's for the
  request's \<open>where\<close>, the limit is the escaped row limit, the \<open>SET\<close> list holds one
  assignment per entry of the value hash, and the bound values are those of the \<open>SET\<close>
  list followed by those of the \<open>WHERE\<close> text.
\<close>

theorem updateQuery_limit_subquery:
  "(\<not> truthy (row_limit g options) \<longrightarrow>
      updateQuery g tableName attrValueHash wh options attributes =
        (super_updateQuery (g_base g) tableName attrValueHash wh options attributes)
          \<lparr>sql_query := ''SELECT * FROM FINAL TABLE ('' @
             sql_query (super_updateQuery (g_base g) tableName attrValueHash wh options attributes) @ '')''\<rparr>)
   \<and> (truthy (row_limit g options) \<longrightarrow>
      updateQuery g tableName attrValueHash wh options attributes =
        (let opts = request_options g options;
             bp = (case go_bindParam opts of BPCustom \<Rightarrow> BPCustom | other \<Rightarrow> BPUndefined);
             assignments =
               set_assignments (g_base g) (go_bindParam opts = BPFalse) bp
                 (case attributes of None \<Rightarrow> [] | Some as \<Rightarrow> as) []
                 (removeNullValuesFromHash (g_base g) attrValueHash (go_omitNull opts) (Some opts));
             condition = whereQuery (g_base g) wh opts bp (snd assignments)
         in \<lparr> sql_query =
                ''SELECT * FROM FINAL TABLE ('' @
                ''UPDATE (SELECT * FROM '' @ quoteTable (g_base g) tableName @ '' '' @
                fst condition @
                '' FETCH NEXT '' @ escape (g_base g) (row_limit g options) None None @
                '' ROWS ONLY) SET '' @ join_with '','' (fst assignments) @ '')'',
              sql_bind = Some (snd condition) \<rparr>))"
proof -
  let ?opts = "request_options g options"
  let ?bp = "case go_bindParam ?opts of BPCustom \<Rightarrow> BPCustom | other \<Rightarrow> BPUndefined"
  let ?as = "case attributes of None \<Rightarrow> [] | Some as \<Rightarrow> as"
  let ?sa = "set_assignments (g_base g) (go_bindParam ?opts = BPFalse) ?bp ?as []
               (removeNullValuesFromHash (g_base g) attrValueHash (go_omitNull ?opts) (Some ?opts))"
  have u: "update_set g ?opts attrValueHash attributes = ?sa"
    unfolding update_set_def update_bindParam_eq
    by (subst update_loop_eq[where attrs = ?as]) (simp_all add: map_of_modelAttributeMap)
  have w: "update_where g ?opts attrValueHash attributes wh =
           whereQuery (g_base g) wh ?opts ?bp (snd ?sa)"
    by (simp only: update_where_def u update_bindParam_eq)
  show ?thesis
    by (simp add: updateQuery_def defaults_eq limit_of_request u w Let_def)
qed

theorem updateQuery_limit_subquery_witness:
  \<open>updateQuery demo_generator ''T'' [(''X'', JNum 1)] (JObj [(''id'', JNum 5)]) no_gen_options None
     = \<lparr> sql_query = ''SELECT * FROM FINAL TABLE (UPDATE T SET X=1)'', sql_bind = Some [] \<rparr>
   \<and> updateQuery demo_generator ''T'' [(''X'', JNum 1)] (JObj [(''id'', JNum 5)])
       (no_gen_options\<lparr>go_limit := JNum 3\<rparr>) None
     = \<lparr> sql_query = ''SELECT * FROM FINAL TABLE (UPDATE (SELECT * FROM "T" WHERE id = $2 FETCH NEXT 3 ROWS ONLY) SET "X"=$1)'',
         sql_bind = Some [JNum 1, JNum 5] \<rparr>\<close>
proof -
  let ?lim = "no_gen_options\<lparr>go_limit := JNum 3\<rparr>"
  have a: "\<not> truthy (row_limit demo_generator no_gen_options)"
    by (simp add: row_limit_def demo_generator_def no_gen_options_def)
  have b: "truthy (row_limit demo_generator ?lim)"
    by (simp add: row_limit_def demo_generator_def no_gen_options_def)
  note plain = updateQuery_limit_subquery[of demo_generator no_gen_options "''T''" "[(''X'', JNum 1)]"
      "JObj [(''id'', JNum 5)]" None, THEN conjunct1, THEN mp, OF a]
  note limited = updateQuery_limit_subquery[of demo_generator ?lim "''T''" "[(''X'', JNum 1)]"
      "JObj [(''id'', JNum 5)]" None, THEN conjunct2, THEN mp, OF b]
  have c: \<open>(super_updateQuery (g_base demo_generator) ''T'' [(''X'', JNum 1)] (JObj [(''id'', JNum 5)])
              no_gen_options None)
          \<lparr>sql_query := ''SELECT * FROM FINAL TABLE ('' @
             sql_query (super_updateQuery (g_base demo_generator) ''T'' [(''X'', JNum 1)]
                          (JObj [(''id'', JNum 5)]) no_gen_options None) @ '')''\<rparr>
        = \<lparr> sql_query = ''SELECT * FROM FINAL TABLE (UPDATE T SET X=1)'', sql_bind = Some [] \<rparr>\<close>
    by code_simp
  have d: \<open>(let opts = request_options demo_generator ?lim;
             bp = (case go_bindParam opts of BPCustom \<Rightarrow> BPCustom | other \<Rightarrow> BPUndefined);
             assignments =
               set_assignments (g_base demo_generator) (go_bindParam opts = BPFalse) bp
                 (case None of None \<Rightarrow> [] | Some as \<Rightarrow> as) []
                 (removeNullValuesFromHash (g_base demo_generator) [(''X'', JNum 1)] (go_omitNull opts) (Some opts));
             condition = whereQuery (g_base demo_generator) (JObj [(''id'', JNum 5)]) opts bp (snd assignments)
         in \<lparr> sql_query =
                ''SELECT * FROM FINAL TABLE ('' @
                ''UPDATE (SELECT * FROM '' @ quoteTable (g_base demo_generator) ''T'' @ '' '' @
                fst condition @
                '' FETCH NEXT '' @ escape (g_base demo_generator) (row_limit demo_generator ?lim) None None @
                '' ROWS ONLY) SET '' @ join_with '','' (fst assignments) @ '')'',
              sql_bind = Some (snd condition) \<rparr>)
        = \<lparr> sql_query = ''SELECT * FROM FINAL TABLE (UPDATE (SELECT * FROM "T" WHERE id = $2 FETCH NEXT 3 ROWS ONLY) SET "X"=$1)'',
            sql_bind = Some [JNum 1, JNum 5] \<rparr>\<close>
    by code_simp
  from trans[OF plain c] trans[OF limited d] show ?thesis by (rule conjI)
qed

subsection \<open>insertQuery\<close>

text \<open>
  C6. On a dialect that supports \<open>VALUES ()\<close> and while the counter is below \<open>2^53\<close>:
  when no column is left after the loop, \<open>insertQuery\<close> builds the statement whose
  \<open>VALUES\<close> clause holds the counter's value and nothing else, and a second such build
  from the generator the first one leaves behind holds the next value, which is
  larger and prints differently.
\<close>

theorem insertQuery_synthetic_value:
  assumes "sup_values_empty (g_supports g)"
    and "autoGenValue g < 2 ^ 53"
    and "fst (insert_loop g valueHash1 attrs1 options1) = []"
    and "fst (insert_loop g valueHash2 attrs2 options2) = []"
  shows "sql_query (fst (insertQuery g table1 valueHash1 attrs1 options1)) =
           synthetic_insert g table1 options1 (autoGenValue g)
       \<and> sql_query (fst (insertQuery (snd (insertQuery g table1 valueHash1 attrs1 options1))
                           table2 valueHash2 attrs2 options2)) =
           synthetic_insert g table2 options2 (autoGenValue g + 1)
       \<and> autoGenValue g < autoGenValue g + 1
       \<and> string_of_int (autoGenValue g) \<noteq> string_of_int (autoGenValue g + 1)"
proof -
  have g1: "snd (insertQuery g table1 valueHash1 attrs1 options1) = g\<lparr>autoGenValue := autoGenValue g + 1\<rparr>"
    using assms(1,2) by (simp add: insertQuery_def Let_def js_increment_def)
  have q1: "sql_query (fst (insertQuery g table1 valueHash1 attrs1 options1)) =
           synthetic_insert g table1 options1 (autoGenValue g)"
    using assms(1,3) by (simp add: insertQuery_def Let_def synthetic_insert_def)
  have q2: "sql_query (fst (insertQuery (g\<lparr>autoGenValue := autoGenValue g + 1\<rparr>)
                           table2 valueHash2 attrs2 options2)) =
           synthetic_insert g table2 options2 (autoGenValue g + 1)"
    using assms(1,4)
    by (simp add: insertQuery_def Let_def synthetic_insert_def insert_loop_counter
        insert_options_def on_duplicate_def)
  have ne: "string_of_int (autoGenValue g) \<noteq> string_of_int (autoGenValue g + 1)"
    using string_of_int_inj[of "autoGenValue g" "autoGenValue g + 1"] by auto
  from g1 q1 q2 ne show ?thesis by simp
qed

theorem insertQuery_synthetic_value_witness:
  \<open>sql_query (fst (insertQuery demo_generator ''T'' [] None no_gen_options))
     = ''SELECT * FROM FINAL TABLE(INSERT INTO "T" VALUES (1));''
   \<and> sql_query (fst (insertQuery (snd (insertQuery demo_generator ''T'' [] None no_gen_options))
                     ''T'' [(''id'', JNull)] (Some (rawAttributes id_model)) no_gen_options))
     = ''SELECT * FROM FINAL TABLE(INSERT INTO "T" VALUES (2));''\<close>
proof -
  have a: "sup_values_empty (g_supports demo_generator)"
    by (simp add: demo_generator_def)
  have b: "autoGenValue demo_generator < 2 ^ 53"
    by (simp add: demo_generator_def)
  have c: "fst (insert_loop demo_generator [] None no_gen_options) = []"
    by code_simp
  have d: "fst (insert_loop demo_generator [(''id'', JNull)] (Some (rawAttributes id_model)) no_gen_options) = []"
    by code_simp
  have e: \<open>synthetic_insert demo_generator ''T'' no_gen_options (autoGenValue demo_generator)
             = ''SELECT * FROM FINAL TABLE(INSERT INTO "T" VALUES (1));''\<close>
    by code_simp
  have f: \<open>synthetic_insert demo_generator ''T'' no_gen_options (autoGenValue demo_generator + 1)
             = ''SELECT * FROM FINAL TABLE(INSERT INTO "T" VALUES (2));''\<close>
    by code_simp
  from insertQuery_synthetic_value[OF a b c d, of "''T''" "''T''"] e f
  show ?thesis by simp
qed

end
